theory Spec2Isabelle
  imports Complex_Main
begin

section \<open>JavaScript values used by the engine\<close>

text \<open>
  Strings are lists of code units (\<open>string\<close>). A \<open>char\<close> has eight bits, so the
  model covers the code units U+0000 to U+00FF (ASCII and Latin-1), where
  \<open>toLowerCase\<close>, \<open>toUpperCase\<close> and \<open>trim\<close> act as written below: in that range the
  letters are \<open>A-Z\<close>, \<open>a-z\<close> and the accented letters U+00C0 to U+00DE and U+00E0
  to U+00FE (without the signs U+00D7 and U+00F7), thirty-two apart; the sharp s U+00DF
  becomes \<open>SS\<close> in upper case; white space is U+0009 to U+000D, the space and the
  no-break space U+00A0. The upper-case forms of U+00B5 and U+00FF (U+039C and U+0178)
  lie outside the range, so the model cannot hold them and leaves these two code units
  in place; no other code unit of the range has either of these upper-case forms, so two
  upper-cased strings are equal in the model exactly when they are in JavaScript, and
  only a message that prints an upper-cased string holding one of the two differs.
  An optional string (\<open>None\<close> is \<open>undefined\<close>) is truthy iff it is defined and not
  empty; \<open>truthy\<close> returns the string in that case.
\<close>

definition isUpper :: "char \<Rightarrow> bool" where
  "isUpper c = (65 \<le> (of_char c :: nat) \<and> (of_char c :: nat) \<le> 90)"

definition isLower :: "char \<Rightarrow> bool" where
  "isLower c = (97 \<le> (of_char c :: nat) \<and> (of_char c :: nat) \<le> 122)"

definition isDigit :: "char \<Rightarrow> bool" where
  "isDigit c = (48 \<le> (of_char c :: nat) \<and> (of_char c :: nat) \<le> 57)"

definition isWhite :: "char \<Rightarrow> bool" where
  "isWhite c = ((of_char c :: nat) = 32 \<or> (9 \<le> (of_char c :: nat) \<and> (of_char c :: nat) \<le> 13)
                \<or> (of_char c :: nat) = 160)"

definition hasLowerCase :: "char \<Rightarrow> bool" where
  "hasLowerCase c =
     (isUpper c \<or> (192 \<le> (of_char c :: nat) \<and> (of_char c :: nat) \<le> 222
                     \<and> (of_char c :: nat) \<noteq> 215))"

definition hasUpperCase :: "char \<Rightarrow> bool" where
  "hasUpperCase c =
     (isLower c \<or> (224 \<le> (of_char c :: nat) \<and> (of_char c :: nat) \<le> 254
                     \<and> (of_char c :: nat) \<noteq> 247))"

definition toLowerCase :: "string \<Rightarrow> string" where
  "toLowerCase s = map (\<lambda>c. if hasLowerCase c then char_of ((of_char c :: nat) + 32) else c) s"

definition toUpperCase :: "string \<Rightarrow> string" where
  "toUpperCase s =
     concat (map (\<lambda>c. if (of_char c :: nat) = 223 then ''SS''
                         else if hasUpperCase c then [char_of ((of_char c :: nat) - 32)]
                         else [c]) s)"

definition trim :: "string \<Rightarrow> string" where
  "trim s = rev (dropWhile isWhite (rev (dropWhile isWhite s)))"

definition truthy :: "string option \<Rightarrow> string option" where
  "truthy x = (case x of None \<Rightarrow> None | Some s \<Rightarrow> if s = [] then None else Some s)"

text \<open>\<open>s.includes(sub)\<close>: \<open>sub\<close> occurs in \<open>s\<close> as a contiguous block.\<close>

fun js_includes :: "string \<Rightarrow> string \<Rightarrow> bool" where
  "js_includes [] sub = (sub = [])"
| "js_includes (c # cs) sub = (take (length sub) (c # cs) = sub \<or> js_includes cs sub)"

text \<open>\<open>xs.join(sep)\<close>.\<close>

fun js_join :: "string \<Rightarrow> string list \<Rightarrow> string" where
  "js_join sep [] = []"
| "js_join sep [x] = x"
| "js_join sep (x # y # ys) = x @ sep @ js_join sep (y # ys)"

text \<open>The double quote that the mismatch messages put around the two values.\<close>

definition dq :: string where
  "dq = [CHR 0x22]"

text \<open>
  A JavaScript number that is \<open>NaN\<close>, plus infinity or a finite value: an integer for
  an age, a real for a double. Every comparison with \<open>NaN\<close> is false, and plus
  infinity is above every finite value.
\<close>

datatype 'a js_number = NaN | Infinity | Num 'a

fun js_lt :: "('a :: linorder) js_number \<Rightarrow> 'a \<Rightarrow> bool" where
  "js_lt NaN y = False"
| "js_lt Infinity y = False"
| "js_lt (Num x) y = (x < y)"

fun js_gt :: "('a :: linorder) js_number \<Rightarrow> 'a \<Rightarrow> bool" where
  "js_gt NaN y = False"
| "js_gt Infinity y = True"
| "js_gt (Num x) y = (x > y)"

fun js_ge :: "('a :: linorder) js_number \<Rightarrow> 'a \<Rightarrow> bool" where
  "js_ge NaN y = False"
| "js_ge Infinity y = True"
| "js_ge (Num x) y = (x \<ge> y)"

text \<open>
  Arithmetic on doubles. A finite double is the real number it stands for; an operation
  computes the exact result and rounds it to the nearest number with a significand of
  53 bits, a tie going to the even significand (IEEE 754 binary64, the only rounding
  JavaScript has). \<open>floor_log2 x\<close> is the binary exponent of a positive \<open>x\<close>, found
  from the bit length of its integer part (or of the integer part of its inverse, below
  one). The range of the exponent is left out: the quantities below are confidences,
  counts and their ratios, far from the overflow and underflow of the format. A decimal
  literal such as \<open>0.6\<close> is the rounded quotient \<open>binary64 (6 / 10)\<close>.
\<close>

fun bit_length :: "nat \<Rightarrow> nat" where
  "bit_length n = (if n = 0 then 0 else Suc (bit_length (n div 2)))"

definition floor_log2 :: "real \<Rightarrow> int" where
  "floor_log2 x =
     (if 1 \<le> x then int (bit_length (nat \<lfloor>x\<rfloor>)) - 1
      else - int (bit_length (nat (\<lceil>1 / x\<rceil> - 1))))"

definition pow2 :: "int \<Rightarrow> real" where
  "pow2 k = (if 0 \<le> k then 2 ^ nat k else 1 / 2 ^ nat (- k))"

definition round_half_even :: "real \<Rightarrow> int" where
  "round_half_even r =
     (if r - of_int \<lfloor>r\<rfloor> < 1 / 2 then \<lfloor>r\<rfloor>
      else if r - of_int \<lfloor>r\<rfloor> > 1 / 2 then \<lfloor>r\<rfloor> + 1
      else if even \<lfloor>r\<rfloor> then \<lfloor>r\<rfloor> else \<lfloor>r\<rfloor> + 1)"

definition binary64 :: "real \<Rightarrow> real" where
  "binary64 x =
     (if x = 0 then 0
      else sgn x * of_int (round_half_even (\<bar>x\<bar> / pow2 (floor_log2 \<bar>x\<bar> - 52)))
             * pow2 (floor_log2 \<bar>x\<bar> - 52))"

definition dbl_add :: "real \<Rightarrow> real \<Rightarrow> real" where
  "dbl_add a b = binary64 (a + b)"

definition dbl_mul :: "real \<Rightarrow> real \<Rightarrow> real" where
  "dbl_mul a b = binary64 (a * b)"

definition dbl_div :: "real \<Rightarrow> real \<Rightarrow> real" where
  "dbl_div a b = binary64 (a / b)"

text \<open>
  The quotient \<open>p / t\<close> of two array lengths, with nothing in front of it: \<open>0 / 0\<close>
  is \<open>NaN\<close> and a positive length over zero is plus infinity; neither raises an
  exception.
\<close>

definition js_divide :: "nat \<Rightarrow> nat \<Rightarrow> real js_number" where
  "js_divide p t =
     (if t = 0 then (if p = 0 then NaN else Infinity) else Num (dbl_div (real p) (real t)))"

text \<open>
  \<open>Math.round\<close> takes a double to the nearest integer, a half towards plus infinity;
  it works on the exact value of its argument.
\<close>

definition js_round :: "real \<Rightarrow> int" where
  "js_round x = \<lfloor>x + 1 / 2\<rfloor>"

text \<open>
  The decimal text of an integer, as a template literal prints it: the digits are
  produced from the least significant one and pushed in front of those already there.
\<close>

definition digit_char :: "nat \<Rightarrow> char" where
  "digit_char d = char_of (d + 48)"

fun decimal_digits :: "nat \<Rightarrow> string \<Rightarrow> string" where
  "decimal_digits n acc =
     (if n < 10 then digit_char n # acc
      else decimal_digits (n div 10) (digit_char (n mod 10) # acc))"

definition toString_int :: "int \<Rightarrow> string" where
  "toString_int i =
     (if 0 \<le> i then decimal_digits (nat i) [] else CHR ''-'' # decimal_digits (nat (- i)) [])"

fun string_of_number :: "int js_number \<Rightarrow> string" where
  "string_of_number NaN = ''NaN''"
| "string_of_number Infinity = ''Infinity''"
| "string_of_number (Num i) = toString_int i"

section \<open>Data model\<close>

text \<open>
  The interfaces of src/lib/validator.ts, of the document verifier (src/unnamed/part_002)
  and of the eligibility engine (src/unnamed/part_001). The property \<open>value\<close> of an
  extracted field is the record field \<open>fvalue\<close>, and the policy's \<open>visaType\<close> is
  \<open>policy_visaType\<close>. A confidence is a whole number, as the scores from 0 to 100
  and the estimates of the verifier are; below \<open>2^53\<close> a whole number is a double.
\<close>

record ExtractedField =
  fvalue :: string
  confidence :: int

text \<open>
  \<open>ExtractedFields\<close> is an object whose keys map to a field or to \<open>undefined\<close>. It is
  an association list in the order of \<open>Object.entries\<close>, with pairwise distinct keys.
  \<open>getField\<close> is the property read \<open>extractedFields.k\<close>, and \<open>fieldValue\<close> the
  truthiness test on \<open>extractedFields.k?.value\<close>.
\<close>

type_synonym ExtractedFields = "(string \<times> ExtractedField option) list"

definition getField :: "ExtractedFields \<Rightarrow> string \<Rightarrow> ExtractedField option" where
  "getField extractedFields k = (case map_of extractedFields k of Some (Some f) \<Rightarrow> Some f | _ \<Rightarrow> None)"

definition fieldValue :: "ExtractedFields \<Rightarrow> string \<Rightarrow> string option" where
  "fieldValue extractedFields k = truthy (map_option fvalue (getField extractedFields k))"

text \<open>
  The applicant data is the parsed JSON of the form in page.tsx: five properties, each a
  string or missing.
\<close>

record ApplicantData =
  name :: "string option"
  dateOfBirth :: "string option"
  passportNumber :: "string option"
  nationality :: "string option"
  intendedVisaType :: "string option"

record ValidationCheck =
  field :: string
  passed :: bool
  message :: string

record EligibilityResult =
  eligible :: bool
  reason :: string
  visaType :: "string option"

record EligibilityPolicy =
  policy_visaType :: string
  minAge :: int
  maxAge :: "int option"
  minPassportValidity :: int
  allowedNationalities :: "string list option"
  deniedNationalities :: "string list option"
  requiresValidPassport :: bool

section \<open>Similarity utility (src/lib/validator.ts)\<close>

text \<open>
  \<open>levenshteinDistance\<close> fills a matrix of numbers row by row. The three loops are
  folds over their index ranges. A write \<open>matrix[i][j] = v\<close> replaces the cell when the
  row already has it and extends the row by one when \<open>j\<close> is the row's length; the
  loops never write further out.
\<close>

type_synonym matrix = "nat list list"

definition set_cell :: "matrix \<Rightarrow> nat \<Rightarrow> nat \<Rightarrow> nat \<Rightarrow> matrix" where
  "set_cell m i j v =
     m[i := (if j < length (m ! i) then (m ! i)[j := v] else (m ! i) @ [v])]"

definition init_rows :: "nat \<Rightarrow> matrix" where
  "init_rows n2 = fold (\<lambda>i m. m @ [[i]]) [0..<Suc n2] []"

definition init_cols :: "nat \<Rightarrow> matrix \<Rightarrow> matrix" where
  "init_cols n1 m = fold (\<lambda>j m. set_cell m 0 j j) [0..<Suc n1] m"

definition cell_value :: "string \<Rightarrow> string \<Rightarrow> matrix \<Rightarrow> nat \<Rightarrow> nat \<Rightarrow> nat" where
  "cell_value str1 str2 m i j =
     (if str2 ! (i - 1) = str1 ! (j - 1) then m ! (i - 1) ! (j - 1)
      else min (m ! (i - 1) ! (j - 1) + 1) (min (m ! i ! (j - 1) + 1) (m ! (i - 1) ! j + 1)))"

definition fill_row :: "string \<Rightarrow> string \<Rightarrow> matrix \<Rightarrow> nat \<Rightarrow> matrix" where
  "fill_row str1 str2 m i =
     fold (\<lambda>j m. set_cell m i j (cell_value str1 str2 m i j)) [1..<Suc (length str1)] m"

definition fill_matrix :: "string \<Rightarrow> string \<Rightarrow> matrix \<Rightarrow> matrix" where
  "fill_matrix str1 str2 m = fold (\<lambda>i m. fill_row str1 str2 m i) [1..<Suc (length str2)] m"

definition levenshteinDistance :: "string \<Rightarrow> string \<Rightarrow> nat" where
  "levenshteinDistance str1 str2 =
     fill_matrix str1 str2 (init_cols (length str1) (init_rows (length str2)))
       ! length str2 ! length str1"

definition calculateSimilarity :: "string \<Rightarrow> string \<Rightarrow> real" where
  "calculateSimilarity str1 str2 =
     (let longer = (if length str1 > length str2 then str1 else str2);
          shorter = (if length str1 > length str2 then str2 else str1)
      in if length longer = 0 then 1
         else (of_nat (length longer) - of_nat (levenshteinDistance longer shorter))
                / of_nat (length longer))"

text \<open>
  The reference the specification names: the classic Levenshtein distance, as the
  recurrence over prefixes. \<open>lev a b i j\<close> is the distance between the first \<open>i\<close>
  items of \<open>a\<close> and the first \<open>j\<close> items of \<open>b\<close>: a deletion, an insertion or a
  substitution costs one, a match nothing.
\<close>

fun lev :: "'a list \<Rightarrow> 'a list \<Rightarrow> nat \<Rightarrow> nat \<Rightarrow> nat" where
  "lev a b 0 j = j"
| "lev a b (Suc i) 0 = Suc i"
| "lev a b (Suc i) (Suc j) =
     min (min (lev a b i (Suc j) + 1) (lev a b (Suc i) j + 1))
         (lev a b i j + (if a ! i = b ! j then 0 else 1))"

definition levenshtein :: "'a list \<Rightarrow> 'a list \<Rightarrow> nat" where
  "levenshtein a b = lev a b (length a) (length b)"

text \<open>
  The value the loops leave in \<open>matrix[i][j]\<close>, as a recurrence (used to state the loop
  invariant), and the matrix after the rows up to \<open>k\<close> are filled.
\<close>

fun dp :: "string \<Rightarrow> string \<Rightarrow> nat \<Rightarrow> nat \<Rightarrow> nat" where
  "dp s1 s2 0 j = j"
| "dp s1 s2 (Suc i) 0 = Suc i"
| "dp s1 s2 (Suc i) (Suc j) =
     (if s2 ! i = s1 ! j then dp s1 s2 i j
      else min (dp s1 s2 i j + 1) (min (dp s1 s2 (Suc i) j + 1) (dp s1 s2 i (Suc j) + 1)))"

definition dp_row :: "string \<Rightarrow> string \<Rightarrow> nat \<Rightarrow> nat \<Rightarrow> nat list" where
  "dp_row s1 s2 i k = map (dp s1 s2 i) [0..<Suc k]"

definition partial_matrix :: "string \<Rightarrow> string \<Rightarrow> nat \<Rightarrow> matrix" where
  "partial_matrix s1 s2 k =
     map (\<lambda>i. dp_row s1 s2 i (length s1)) [0..<Suc k] @ map (\<lambda>i. [i]) [Suc k..<Suc (length s2)]"

section \<open>MRZ structural validator (src/lib/validator.ts)\<close>

text \<open>
  The regular expression \<open>/^[A-Z0-9<]+$/\<close> has no flags, so \<open>^\<close> and \<open>$\<close> match
  only at the two ends of the input: \<open>test\<close> holds iff the string is not empty and every
  code unit is an upper-case letter, a digit or \<open><\<close>.
\<close>

definition isMRZChar :: "char \<Rightarrow> bool" where
  "isMRZChar c = (isUpper c \<or> isDigit c \<or> c = CHR ''<'')"

definition validMRZChars_test :: "string \<Rightarrow> bool" where
  "validMRZChars_test s = (s \<noteq> [] \<and> list_all isMRZChar s)"

definition validateTD3Checksum :: "string \<Rightarrow> string \<Rightarrow> bool" where
  "validateTD3Checksum line1 line2 = (validMRZChars_test line1 \<and> validMRZChars_test line2)"

definition validateTD1Checksum :: "string \<Rightarrow> string \<Rightarrow> string \<Rightarrow> bool" where
  "validateTD1Checksum line1 line2 line3 =
     (validMRZChars_test line1 \<and> validMRZChars_test line2 \<and> validMRZChars_test line3)"

text \<open>
  \<open>line3\<close> is optional (\<open>None\<close> is \<open>undefined\<close>); \<open>line3 && line3.length === 30\<close>
  needs a defined string of length 30. The body of the \<open>try\<close> block only reads lengths
  and runs the regular expression on strings, none of which throws, so the \<open>catch\<close>
  branch (which would also return \<open>true\<close>) has no input that reaches it.
\<close>

definition validateMRZ :: "string \<Rightarrow> string \<Rightarrow> string option \<Rightarrow> bool" where
  "validateMRZ line1 line2 line3 =
     (if length line1 = 44 \<and> length line2 = 44 then validateTD3Checksum line1 line2
      else (case line3 of
              Some l3 \<Rightarrow>
                if length line1 = 30 \<and> length line2 = 30 \<and> l3 \<noteq> [] \<and> length l3 = 30
                then validateTD1Checksum line1 line2 l3
                else True
            | None \<Rightarrow> True))"

section \<open>Clock and date library\<close>

text \<open>
  The engine reads the clock (\<open>new Date()\<close>) and calls the date library date-fns
  (\<open>parseISO\<close>, \<open>isBefore\<close>, \<open>differenceInYears\<close>, \<open>addMonths\<close>), neither of which
  is part of the repository. They are parameters of the model, collected in an
  environment:
  \<^item> \<open>now\<close>: the time value (milliseconds since the epoch) of \<open>new Date()\<close>; one
    request reads the clock several times, and the model takes one instant for all;
  \<^item> \<open>parseISO\<close>: the parser, which returns a date object or throws. A date object is
    either a valid date with its time value or \<open>Invalid Date\<close>, whose time value is
    \<open>NaN\<close>;
  \<^item> \<open>sixMonthsFromNow\<close>: the time value of a \<open>new Date()\<close> after
    \<open>setMonth(getMonth() + 6)\<close>;
  \<^item> \<open>differenceInYears\<close> and \<open>addMonths\<close> on the time values of valid dates.

  date-fns documents \<open>parseISO\<close> as returning \<open>Invalid Date\<close> for an argument that is
  not a valid ISO 8601 string: on a string it does not throw. The model still lets the
  parser throw, so that the \<open>catch\<close> blocks of the source are branches of the model;
  the theorems below hold for every environment and say which answer of the parser
  they are about.
\<close>

datatype js_error = TypeError | RangeError

datatype jsdate = InvalidDate | Date int

record env =
  now :: int
  parseISO :: "string \<Rightarrow> js_error + jsdate"
  sixMonthsFromNow :: int
  differenceInYears :: "int \<Rightarrow> int \<Rightarrow> int"
  addMonths :: "int \<Rightarrow> int \<Rightarrow> int"

text \<open>
  On date objects the library compares and subtracts time values, so \<open>Invalid Date\<close>
  propagates as \<open>NaN\<close>: \<open>isBefore\<close> with an invalid date is false,
  \<open>differenceInYears\<close> with an invalid date is \<open>NaN\<close>, and \<open>addMonths\<close> of an
  invalid date or by an undefined amount is \<open>Invalid Date\<close>. The operator \<open><\<close> on
  two date objects compares their time values in the same way.
\<close>

fun isBefore :: "jsdate \<Rightarrow> jsdate \<Rightarrow> bool" where
  "isBefore (Date a) (Date b) = (a < b)"
| "isBefore _ _ = False"

fun differenceInYears_of :: "env \<Rightarrow> jsdate \<Rightarrow> jsdate \<Rightarrow> int js_number" where
  "differenceInYears_of e (Date a) (Date b) = Num (differenceInYears e a b)"
| "differenceInYears_of e _ _ = NaN"

fun addMonths_of :: "env \<Rightarrow> jsdate \<Rightarrow> int option \<Rightarrow> jsdate" where
  "addMonths_of e (Date a) (Some n) = Date (addMonths e a n)"
| "addMonths_of e _ _ = InvalidDate"

section \<open>Document validator (src/lib/validator.ts)\<close>

text \<open>
  \<open>validateDocument\<close> pushes the checks of nine rules, in order, onto one array. Each
  rule is a function returning the checks it pushes; \<open>validateDocument\<close> appends them.
  A \<open>try\<close> block whose parser call throws has pushed nothing yet, so its \<open>catch\<close>
  contributes the only check of the block.
\<close>

definition expiryCheck :: "env \<Rightarrow> ExtractedFields \<Rightarrow> ValidationCheck list" where
  "expiryCheck e extractedFields =
     (case fieldValue extractedFields ''expiryDate'' of
        None \<Rightarrow> []
      | Some v \<Rightarrow>
          (case parseISO e v of
             Inl err \<Rightarrow>
               [\<lparr>field = ''expiryDate'', passed = False, message = ''Invalid expiry date format''\<rparr>]
           | Inr expiryDate \<Rightarrow>
               (let today = Date (now e);
                    isExpired = isBefore expiryDate today
                in \<lparr>field = ''expiryDate'', passed = \<not> isExpired,
                     message = (if isExpired then ''Document expired on '' @ v
                                else ''Document valid until '' @ v)\<rparr>
                   # (if \<not> isExpired \<and> isBefore expiryDate (Date (sixMonthsFromNow e))
                      then [\<lparr>field = ''expiryDate'', passed = True,
                              message = ''Warning: Document expires within 6 months''\<rparr>]
                      else []))))"

definition issueDateCheck :: "env \<Rightarrow> ExtractedFields \<Rightarrow> ValidationCheck list" where
  "issueDateCheck e extractedFields =
     (case fieldValue extractedFields ''issueDate'' of
        None \<Rightarrow> []
      | Some v \<Rightarrow>
          (case parseISO e v of
             Inl err \<Rightarrow>
               [\<lparr>field = ''issueDate'', passed = False, message = ''Invalid issue date format''\<rparr>]
           | Inr issueDate \<Rightarrow>
               (let today = Date (now e);
                    isValidIssueDate = isBefore issueDate today
                in [\<lparr>field = ''issueDate'', passed = isValidIssueDate,
                      message = (if isValidIssueDate then ''Document issued on '' @ v
                                 else ''Issue date is in the future'')\<rparr>])))"

definition nameCheck :: "ExtractedFields \<Rightarrow> ApplicantData \<Rightarrow> ValidationCheck list" where
  "nameCheck extractedFields applicantData =
     (case truthy (name applicantData) of
        None \<Rightarrow> []
      | Some applicantDataName \<Rightarrow>
          if fieldValue extractedFields ''fullName'' = None \<and>
             fieldValue extractedFields ''firstName'' = None
          then []
          else
            (let extractedName = toLowerCase (trim
                   (case fieldValue extractedFields ''fullName'' of
                      Some full \<Rightarrow> full
                    | None \<Rightarrow>
                        (case fieldValue extractedFields ''firstName'' of Some s \<Rightarrow> s | None \<Rightarrow> [])
                        @ '' '' @
                        (case fieldValue extractedFields ''lastName'' of Some s \<Rightarrow> s | None \<Rightarrow> [])));
                 applicantName = toLowerCase (trim applicantDataName);
                 namesMatch = (js_includes extractedName applicantName \<or>
                               js_includes applicantName extractedName \<or>
                               calculateSimilarity extractedName applicantName > 7 / 10)
             in [\<lparr>field = ''name'', passed = namesMatch,
                   message = (if namesMatch then ''Name matches application''
                              else ''Name mismatch: Document shows '' @ dq @
                                (case fieldValue extractedFields ''fullName'' of
                                   Some full \<Rightarrow> full | None \<Rightarrow> extractedName) @ dq @
                                '', application shows '' @ dq @ applicantDataName @ dq)\<rparr>]))"

definition dateOfBirthCheck :: "env \<Rightarrow> ExtractedFields \<Rightarrow> ApplicantData \<Rightarrow> ValidationCheck list" where
  "dateOfBirthCheck e extractedFields applicantData =
     (case truthy (dateOfBirth applicantData) of
        None \<Rightarrow> []
      | Some claimed \<Rightarrow>
          (case fieldValue extractedFields ''dateOfBirth'' of
             None \<Rightarrow> []
           | Some v \<Rightarrow>
               (let dobMatch = (claimed = v)
                in \<lparr>field = ''dateOfBirth'', passed = dobMatch,
                     message = (if dobMatch then ''Date of birth matches application''
                                else ''DOB mismatch: Document shows '' @ dq @ v @ dq @
                                     '', application shows '' @ dq @ claimed @ dq)\<rparr>
                   # (case parseISO e v of
                        Inl err \<Rightarrow>
                          [\<lparr>field = ''dateOfBirth'', passed = False,
                             message = ''Invalid date of birth format''\<rparr>]
                      | Inr dob \<Rightarrow>
                          (let age = differenceInYears_of e (Date (now e)) dob
                           in [\<lparr>field = ''age'', passed = (js_ge age 18 \<and> js_lt age 120),
                                 message = (if js_ge age 18 \<and> js_lt age 120
                                            then ''Applicant age: '' @ string_of_number age @ '' years''
                                            else if js_lt age 18
                                            then ''Applicant is under 18 - may require guardian''
                                            else ''Invalid age calculated'')\<rparr>])))))"

definition documentNumberCheck :: "ExtractedFields \<Rightarrow> ApplicantData \<Rightarrow> ValidationCheck list" where
  "documentNumberCheck extractedFields applicantData =
     (case truthy (passportNumber applicantData) of
        None \<Rightarrow> []
      | Some claimed \<Rightarrow>
          (case fieldValue extractedFields ''documentNumber'' of
             None \<Rightarrow> []
           | Some v \<Rightarrow>
               (let numberMatch = (trim (toUpperCase claimed) = trim (toUpperCase v))
                in [\<lparr>field = ''documentNumber'', passed = numberMatch,
                      message = (if numberMatch then ''Document number matches application''
                                 else ''Document number mismatch: Document shows '' @ dq @ v @ dq @
                                      '', application shows '' @ dq @ claimed @ dq)\<rparr>])))"

definition nationalityCheck :: "ExtractedFields \<Rightarrow> ApplicantData \<Rightarrow> ValidationCheck list" where
  "nationalityCheck extractedFields applicantData =
     (case truthy (nationality applicantData) of
        None \<Rightarrow> []
      | Some claimed \<Rightarrow>
          (case fieldValue extractedFields ''nationality'' of
             None \<Rightarrow> []
           | Some v \<Rightarrow>
               (let nationalityMatch = (trim (toUpperCase claimed) = trim (toUpperCase v))
                in [\<lparr>field = ''nationality'', passed = nationalityMatch,
                      message = (if nationalityMatch then ''Nationality matches application''
                                 else ''Nationality mismatch: Document shows '' @ dq @ v @ dq @
                                      '', application shows '' @ dq @ claimed @ dq)\<rparr>])))"

definition mrzCheck :: "ExtractedFields \<Rightarrow> ValidationCheck list" where
  "mrzCheck extractedFields =
     (case fieldValue extractedFields ''mrzLine1'' of
        None \<Rightarrow> []
      | Some line1 \<Rightarrow>
          (case fieldValue extractedFields ''mrzLine2'' of
             None \<Rightarrow> []
           | Some line2 \<Rightarrow>
               (let mrzValid = validateMRZ line1 line2
                      (map_option fvalue (getField extractedFields ''mrzLine3''))
                in [\<lparr>field = ''mrzChecksum'', passed = mrzValid,
                      message = (if mrzValid then ''MRZ checksum validation passed''
                                 else ''MRZ checksum validation failed - possible forgery or OCR error'')\<rparr>])))"

definition validTypes :: "string list" where
  "validTypes = [''passport'', ''visa'', ''nationalId'', ''drivingLicense'', ''nationalid'',
                 ''drivinglicense'']"

definition documentTypeCheck :: "ExtractedFields \<Rightarrow> ValidationCheck list" where
  "documentTypeCheck extractedFields =
     (case fieldValue extractedFields ''documentType'' of
        None \<Rightarrow> []
      | Some v \<Rightarrow>
          (let isValidType = (toLowerCase v \<in> set validTypes)
           in [\<lparr>field = ''documentType'', passed = isValidType,
                 message = (if isValidType then ''Document type: '' @ v
                            else ''Unrecognized document type'')\<rparr>]))"

text \<open>\<open>field && field.confidence < 60\<close> on one entry of the object.\<close>

definition lowConfidence :: "ExtractedField option \<Rightarrow> bool" where
  "lowConfidence f = (case f of None \<Rightarrow> False | Some x \<Rightarrow> confidence x < 60)"

definition confidenceCheck :: "ExtractedFields \<Rightarrow> ValidationCheck list" where
  "confidenceCheck extractedFields =
     (let lowConfidenceFields = map fst (filter (\<lambda>(key, f). lowConfidence f) extractedFields)
      in if length lowConfidenceFields > 0
         then [\<lparr>field = ''confidence'', passed = False,
                 message = ''Low confidence in fields: '' @ js_join '', '' lowConfidenceFields @
                           '' - manual review recommended''\<rparr>]
         else [\<lparr>field = ''confidence'', passed = True,
                 message = ''All extracted fields have acceptable confidence scores''\<rparr>])"

definition validateDocument :: "env \<Rightarrow> ExtractedFields \<Rightarrow> ApplicantData \<Rightarrow> ValidationCheck list" where
  "validateDocument e extractedFields applicantData =
     expiryCheck e extractedFields
     @ issueDateCheck e extractedFields
     @ nameCheck extractedFields applicantData
     @ dateOfBirthCheck e extractedFields applicantData
     @ documentNumberCheck extractedFields applicantData
     @ nationalityCheck extractedFields applicantData
     @ mrzCheck extractedFields
     @ documentTypeCheck extractedFields
     @ confidenceCheck extractedFields"

section \<open>Eligibility policy table and engine (src/unnamed/part_001)\<close>

definition tourist :: EligibilityPolicy where
  "tourist = \<lparr>policy_visaType = ''tourist'', minAge = 18, maxAge = None, minPassportValidity = 6,
     allowedNationalities = None, deniedNationalities = None, requiresValidPassport = True\<rparr>"

definition business :: EligibilityPolicy where
  "business = \<lparr>policy_visaType = ''business'', minAge = 21, maxAge = None, minPassportValidity = 6,
     allowedNationalities = None, deniedNationalities = None, requiresValidPassport = True\<rparr>"

definition student :: EligibilityPolicy where
  "student = \<lparr>policy_visaType = ''student'', minAge = 16, maxAge = Some 35, minPassportValidity = 12,
     allowedNationalities = None, deniedNationalities = None, requiresValidPassport = True\<rparr>"

definition work :: EligibilityPolicy where
  "work = \<lparr>policy_visaType = ''work'', minAge = 18, maxAge = Some 65, minPassportValidity = 12,
     allowedNationalities = None, deniedNationalities = None, requiresValidPassport = True\<rparr>"

definition transit :: EligibilityPolicy where
  "transit = \<lparr>policy_visaType = ''transit'', minAge = 18, maxAge = None, minPassportValidity = 3,
     allowedNationalities = None, deniedNationalities = None, requiresValidPassport = True\<rparr>"

text \<open>
  \<open>eligibilityPolicies[key]\<close> is a property read on an object literal. Besides the five
  own keys it finds what the object inherits from \<open>Object.prototype\<close>; of the inherited
  names only \<open>constructor\<close> and \<open>__proto__\<close> are in lower case, which is all that
  \<open>visaType.toLowerCase()\<close> can ask for. Both are objects (so truthy) without any of the
  policy's properties: \<open>ProtoObject\<close>. Reading a policy property of it gives
  \<open>undefined\<close>, here \<open>None\<close> (and false for the boolean).
\<close>

datatype policy_obj = Policy EligibilityPolicy | ProtoObject

definition eligibilityPolicies :: "string \<Rightarrow> policy_obj option" where
  "eligibilityPolicies key =
     (if key = ''tourist'' then Some (Policy tourist)
      else if key = ''business'' then Some (Policy business)
      else if key = ''student'' then Some (Policy student)
      else if key = ''work'' then Some (Policy work)
      else if key = ''transit'' then Some (Policy transit)
      else if key = ''constructor'' \<or> key = ''__proto__'' then Some ProtoObject
      else None)"

fun pol_requiresValidPassport :: "policy_obj \<Rightarrow> bool" where
  "pol_requiresValidPassport (Policy p) = requiresValidPassport p"
| "pol_requiresValidPassport ProtoObject = False"

fun pol_visaType :: "policy_obj \<Rightarrow> string option" where
  "pol_visaType (Policy p) = Some (policy_visaType p)"
| "pol_visaType ProtoObject = None"

fun pol_minAge :: "policy_obj \<Rightarrow> int option" where
  "pol_minAge (Policy p) = Some (minAge p)"
| "pol_minAge ProtoObject = None"

fun pol_maxAge :: "policy_obj \<Rightarrow> int option" where
  "pol_maxAge (Policy p) = maxAge p"
| "pol_maxAge ProtoObject = None"

fun pol_minPassportValidity :: "policy_obj \<Rightarrow> int option" where
  "pol_minPassportValidity (Policy p) = Some (minPassportValidity p)"
| "pol_minPassportValidity ProtoObject = None"

fun pol_allowedNationalities :: "policy_obj \<Rightarrow> string list option" where
  "pol_allowedNationalities (Policy p) = allowedNationalities p"
| "pol_allowedNationalities ProtoObject = None"

fun pol_deniedNationalities :: "policy_obj \<Rightarrow> string list option" where
  "pol_deniedNationalities (Policy p) = deniedNationalities p"
| "pol_deniedNationalities ProtoObject = None"

text \<open>A numeric property in a template literal; a missing one prints as \<open>undefined\<close>.\<close>

definition string_of_property :: "int option \<Rightarrow> string" where
  "string_of_property p = (case p of Some n \<Rightarrow> toString_int n | None \<Rightarrow> ''undefined'')"

text \<open>\<open>applicantData.intendedVisaType || 'tourist'\<close> and the policy selected for it.\<close>

definition requestedVisaType :: "ApplicantData \<Rightarrow> string" where
  "requestedVisaType applicantData =
     (case truthy (intendedVisaType applicantData) of Some s \<Rightarrow> s | None \<Rightarrow> ''tourist'')"

definition selectPolicy :: "string \<Rightarrow> policy_obj" where
  "selectPolicy vt =
     (case eligibilityPolicies (toLowerCase vt) of Some p \<Rightarrow> p | None \<Rightarrow> Policy tourist)"

definition criticalFields :: "string list" where
  "criticalFields = [''expiryDate'', ''documentNumber'', ''dateOfBirth'', ''name'']"

definition criticalFailures :: "ValidationCheck list \<Rightarrow> ValidationCheck list" where
  "criticalFailures validationChecks =
     filter (\<lambda>c. \<not> passed c) (filter (\<lambda>c. field c \<in> set criticalFields) validationChecks)"

text \<open>
  Each later rule of \<open>assessEligibility\<close> either returns a rejection (\<open>Some\<close>) or falls
  through to the next rule (\<open>None\<close>).
\<close>

definition ageRule :: "env \<Rightarrow> policy_obj \<Rightarrow> string \<Rightarrow> ExtractedFields \<Rightarrow> EligibilityResult option" where
  "ageRule e policy vt extractedFields =
     (case fieldValue extractedFields ''dateOfBirth'' of
        None \<Rightarrow> None
      | Some v \<Rightarrow>
          (case parseISO e v of
             Inl err \<Rightarrow>
               Some \<lparr>eligible = False, reason = ''Unable to verify age - invalid date of birth'',
                     visaType = Some vt\<rparr>
           | Inr dob \<Rightarrow>
               (let age = differenceInYears_of e (Date (now e)) dob
                in if (case pol_minAge policy of Some m \<Rightarrow> js_lt age m | None \<Rightarrow> False)
                   then Some \<lparr>eligible = False,
                     reason = ''Applicant age ('' @ string_of_number age @
                       '') is below minimum age requirement ('' @
                       string_of_property (pol_minAge policy) @ '') for '' @ vt @ '' visa'',
                     visaType = Some vt\<rparr>
                   else if (case pol_maxAge policy of Some m \<Rightarrow> m \<noteq> 0 \<and> js_gt age m | None \<Rightarrow> False)
                   then Some \<lparr>eligible = False,
                     reason = ''Applicant age ('' @ string_of_number age @
                       '') exceeds maximum age requirement ('' @
                       string_of_property (pol_maxAge policy) @ '') for '' @ vt @ '' visa'',
                     visaType = Some vt\<rparr>
                   else None)))"

definition validityRule :: "env \<Rightarrow> policy_obj \<Rightarrow> string \<Rightarrow> ExtractedFields \<Rightarrow> EligibilityResult option" where
  "validityRule e policy vt extractedFields =
     (case fieldValue extractedFields ''expiryDate'' of
        None \<Rightarrow> None
      | Some v \<Rightarrow>
          (case parseISO e v of
             Inl err \<Rightarrow>
               Some \<lparr>eligible = False, reason = ''Unable to verify passport validity period'',
                     visaType = Some vt\<rparr>
           | Inr expiryDate \<Rightarrow>
               (let requiredValidUntil = addMonths_of e (Date (now e)) (pol_minPassportValidity policy)
                in if isBefore expiryDate requiredValidUntil
                   then Some \<lparr>eligible = False,
                     reason = ''Passport must be valid for at least '' @
                       string_of_property (pol_minPassportValidity policy) @
                       '' months from today. Current expiry: '' @ v,
                     visaType = Some vt\<rparr>
                   else None)))"

definition allowedRule :: "policy_obj \<Rightarrow> string \<Rightarrow> ExtractedFields \<Rightarrow> EligibilityResult option" where
  "allowedRule policy vt extractedFields =
     (case pol_allowedNationalities policy of
        None \<Rightarrow> None
      | Some allowed \<Rightarrow>
          (case fieldValue extractedFields ''nationality'' of
             None \<Rightarrow> None
           | Some v \<Rightarrow>
               (let upper = toUpperCase v
                in if upper \<notin> set allowed
                   then Some \<lparr>eligible = False,
                     reason = ''Nationality '' @ upper @ '' is not eligible for '' @ vt @ '' visa'',
                     visaType = Some vt\<rparr>
                   else None)))"

definition deniedRule :: "policy_obj \<Rightarrow> string \<Rightarrow> ExtractedFields \<Rightarrow> EligibilityResult option" where
  "deniedRule policy vt extractedFields =
     (case pol_deniedNationalities policy of
        None \<Rightarrow> None
      | Some denied \<Rightarrow>
          (case fieldValue extractedFields ''nationality'' of
             None \<Rightarrow> None
           | Some v \<Rightarrow>
               (let upper = toUpperCase v
                in if upper \<in> set denied
                   then Some \<lparr>eligible = False,
                     reason = ''Nationality '' @ upper @ '' is not eligible for '' @ vt @
                       '' visa due to policy restrictions'',
                     visaType = Some vt\<rparr>
                   else None)))"

definition lowConfidenceCount :: "ExtractedFields \<Rightarrow> nat" where
  "lowConfidenceCount extractedFields = length (filter lowConfidence (map snd extractedFields))"

definition confidenceRule :: "string \<Rightarrow> ExtractedFields \<Rightarrow> EligibilityResult option" where
  "confidenceRule vt extractedFields =
     (if lowConfidenceCount extractedFields > 3
      then Some \<lparr>eligible = False,
        reason = ''Document quality insufficient - too many low-confidence field extractions. Manual review required.'',
        visaType = Some vt\<rparr>
      else None)"

text \<open>
  \<open>passRate\<close> is the quotient of two array lengths, taken without a test of the
  divisor. With no check at all it is \<open>0 / 0\<close>, that is \<open>NaN\<close>; \<open>passRate < 0.7\<close> is
  then false. The percentage of the message is \<open>Math.round(passRate * 100)\<close>.
\<close>

definition passRate :: "ValidationCheck list \<Rightarrow> real js_number" where
  "passRate validationChecks =
     js_divide (length (filter passed validationChecks)) (length validationChecks)"

definition passRateRule :: "string \<Rightarrow> ValidationCheck list \<Rightarrow> EligibilityResult option" where
  "passRateRule vt validationChecks =
     (case passRate validationChecks of
        NaN \<Rightarrow> None
      | Infinity \<Rightarrow> None
      | Num r \<Rightarrow>
          if r < binary64 (7 / 10)
          then Some \<lparr>eligible = False,
            reason = ''Insufficient validation pass rate ('' @
              toString_int (js_round (dbl_mul r 100)) @ ''%). Multiple checks failed.'',
            visaType = Some vt\<rparr>
          else None)"

definition accepted :: "string \<Rightarrow> EligibilityResult" where
  "accepted vt = \<lparr>eligible = True,
     reason = ''Applicant meets all eligibility requirements for '' @ vt @
       '' visa. Document is valid and all required fields verified.'',
     visaType = Some vt\<rparr>"

definition assessEligibility ::
  "env \<Rightarrow> ExtractedFields \<Rightarrow> ApplicantData \<Rightarrow> ValidationCheck list \<Rightarrow> EligibilityResult" where
  "assessEligibility e extractedFields applicantData validationChecks =
     (let vt = requestedVisaType applicantData;
          policy = selectPolicy vt
      in if pol_requiresValidPassport policy \<and> length (criticalFailures validationChecks) > 0
         then \<lparr>eligible = False,
                reason = ''Critical validation failures: '' @
                  js_join ''; '' (map message (criticalFailures validationChecks)),
                visaType = Some vt\<rparr>
         else (case ageRule e policy vt extractedFields of Some r \<Rightarrow> r | None \<Rightarrow>
              (case validityRule e policy vt extractedFields of Some r \<Rightarrow> r | None \<Rightarrow>
              (case allowedRule policy vt extractedFields of Some r \<Rightarrow> r | None \<Rightarrow>
              (case deniedRule policy vt extractedFields of Some r \<Rightarrow> r | None \<Rightarrow>
              (case confidenceRule vt extractedFields of Some r \<Rightarrow> r | None \<Rightarrow>
              (case passRateRule vt validationChecks of Some r \<Rightarrow> r | None \<Rightarrow>
               accepted vt)))))))"

section \<open>Aggregator (src/unnamed/part_002)\<close>

text \<open>
  \<open>Object.values(fields).map(f => f?.confidence || 0).filter(c => c > 0)\<close>, the sum by
  \<open>reduce\<close> and the average, the score of the checks, the weighted sum, \<open>Math.round\<close>
  and the clamp. Every \<open>+\<close>, \<open>*\<close> and \<open>/\<close> is an operation on doubles.
\<close>

definition fieldConfidences :: "ExtractedFields \<Rightarrow> int list" where
  "fieldConfidences fs =
     filter (\<lambda>c. c > 0)
       (map (\<lambda>f. case f of Some x \<Rightarrow> confidence x | None \<Rightarrow> 0) (map snd fs))"

definition avgFieldConfidence :: "ExtractedFields \<Rightarrow> real" where
  "avgFieldConfidence fs =
     (if length (fieldConfidences fs) > 0
      then dbl_div (foldl (\<lambda>a b. dbl_add a (real_of_int b)) 0 (fieldConfidences fs))
             (real (length (fieldConfidences fs)))
      else 50)"

definition validationScore :: "ValidationCheck list \<Rightarrow> real" where
  "validationScore checks =
     (if length checks > 0
      then dbl_mul (dbl_div (real (length (filter passed checks))) (real (length checks))) 100
      else 70)"

definition calculateOverallConfidence :: "ExtractedFields \<Rightarrow> ValidationCheck list \<Rightarrow> int" where
  "calculateOverallConfidence fs checks =
     (let overall = js_round (dbl_add (dbl_mul (avgFieldConfidence fs) (binary64 (6 / 10)))
                                      (dbl_mul (validationScore checks) (binary64 (4 / 10))))
      in min 100 (max 0 overall))"

definition generateRecommendations :: "ValidationCheck list \<Rightarrow> EligibilityResult \<Rightarrow> string list" where
  "generateRecommendations checks eligibility =
     (let failedChecks = filter (\<lambda>c. \<not> passed c) checks
      in if length failedChecks = 0 \<and> eligible eligibility
         then [''Document appears valid and applicant is eligible'',
               ''Proceed with visa application processing'']
         else
           (if list_ex (\<lambda>c. js_includes (field c) ''expiry'' \<or> js_includes (field c) ''Expiry'') failedChecks
            then [''Document has expired - request renewed document''] else [])
           @ (if list_ex (\<lambda>c. js_includes (field c) ''MRZ'' \<or> js_includes (field c) ''checksum'') failedChecks
              then [''MRZ validation failed - verify document authenticity''] else [])
           @ (if list_ex (\<lambda>c. js_includes (field c) ''name'' \<or> js_includes (field c) ''Name'') failedChecks
              then [''Name mismatch detected - request clarification from applicant''] else [])
           @ (if \<not> eligible eligibility
              then [''Applicant not eligible for requested visa type'',
                    ''Contact applicant for additional documentation or alternate visa type'']
              else [])
           @ (if length failedChecks > 3
              then [''Multiple validation failures - manual review required''] else []))"

text \<open>
  The overall confidence as the specification words it, in exact arithmetic: the average
  is taken over all fields present in the mapping, a present field of confidence 0
  counting as zero, and is 50 when no field has a confidence above 0.
\<close>

definition spec_avgFieldConfidence :: "ExtractedFields \<Rightarrow> real" where
  "spec_avgFieldConfidence fs =
     (let present = map confidence (List.map_filter snd fs)
      in if \<not> list_ex (\<lambda>c. c > 0) present then 50
         else of_int (sum_list present) / of_nat (length present))"

definition spec_overallConfidence :: "ExtractedFields \<Rightarrow> ValidationCheck list \<Rightarrow> int" where
  "spec_overallConfidence fs checks =
     min 100 (max 0 (js_round ((6 / 10) * spec_avgFieldConfidence fs
        + (4 / 10) * (if checks = [] then 70
                      else 100 * (of_nat (length (filter passed checks)) / of_nat (length checks))))))"

text \<open>The confidences above 0, in the order of the mapping.\<close>

definition positiveConfidences :: "ExtractedFields \<Rightarrow> int list" where
  "positiveConfidences fs = filter (\<lambda>c. c > 0) (map confidence (List.map_filter snd fs))"

section \<open>An example environment\<close>

text \<open>
  The answers of the clock and of date-fns, in a process running in UTC on 2 November
  2026 at midnight, for the strings the examples below use: \<open>2030-12-31\<close> and
  \<open>1990-01-15\<close> are ISO dates (parsed to their midnight), and \<open>parseISO\<close> of a string
  that is no ISO 8601 date, such as \<open>not-a-date\<close>, is \<open>Invalid Date\<close>. The table
  gives the library's answers for these arguments only.
\<close>

definition example_parseISO :: "string \<Rightarrow> js_error + jsdate" where
  "example_parseISO s =
     (if s = ''2030-12-31'' then Inr (Date 1924905600000)
      else if s = ''1990-01-15'' then Inr (Date 632361600000)
      else Inr InvalidDate)"

definition example_env :: env where
  "example_env = \<lparr>now = 1793577600000, parseISO = example_parseISO,
     sixMonthsFromNow = 1809216000000,
     differenceInYears = (\<lambda>a b. if a = 1793577600000 \<and> b = 632361600000 then 36 else 0),
     addMonths = (\<lambda>a n. if a = 1793577600000 \<and> n = 6 then 1809216000000 else a)\<rparr>"

definition no_claim :: ApplicantData where
  "no_claim = \<lparr>name = None, dateOfBirth = None, passportNumber = None, nationality = None,
     intendedVisaType = None\<rparr>"

definition request_for :: "string \<Rightarrow> ApplicantData" where
  "request_for vt = \<lparr>name = None, dateOfBirth = None, passportNumber = None, nationality = None,
     intendedVisaType = Some vt\<rparr>"

text \<open>Example inputs; the first two are the end-to-end scenario of the specification.\<close>

definition john_doe_fields :: ExtractedFields where
  "john_doe_fields =
     [(''fullName'', Some \<lparr>fvalue = ''John Doe'', confidence = 95\<rparr>),
      (''dateOfBirth'', Some \<lparr>fvalue = ''1990-01-15'', confidence = 90\<rparr>),
      (''documentNumber'', Some \<lparr>fvalue = ''A12345678'', confidence = 90\<rparr>),
      (''nationality'', Some \<lparr>fvalue = ''USA'', confidence = 92\<rparr>),
      (''expiryDate'', Some \<lparr>fvalue = ''2030-12-31'', confidence = 90\<rparr>),
      (''documentType'', Some \<lparr>fvalue = ''passport'', confidence = 95\<rparr>)]"

definition john_doe_claim :: ApplicantData where
  "john_doe_claim = \<lparr>name = Some ''John Doe'', dateOfBirth = Some ''1990-01-15'',
     passportNumber = Some ''A12345678'', nationality = Some ''USA'',
     intendedVisaType = Some ''tourist''\<rparr>"

definition example_fields :: ExtractedFields where
  "example_fields =
     [(''documentType'', Some \<lparr>fvalue = ''other'', confidence = 90\<rparr>),
      (''documentNumber'', Some \<lparr>fvalue = ''A12345678'', confidence = 90\<rparr>),
      (''nationality'', Some \<lparr>fvalue = ''USA'', confidence = 92\<rparr>)]"

definition example_claim :: ApplicantData where
  "example_claim = \<lparr>name = Some ''John Doe'', dateOfBirth = Some ''1990-01-15'',
     passportNumber = Some ''a12345678'', nationality = Some '' usa '',
     intendedVisaType = Some ''tourist''\<rparr>"

definition zero_confidence_fields :: ExtractedFields where
  "zero_confidence_fields =
     [(''documentNumber'', Some \<lparr>fvalue = ''A12345678'', confidence = 100\<rparr>),
      (''placeOfBirth'', Some \<lparr>fvalue = ''unreadable'', confidence = 0\<rparr>)]"

text \<open>
  Six fields whose confidences add up to 395, with a claim that makes three of the six
  checks pass: exactly, 0.6 * (395 / 6) + 0.4 * 50 is 59.5.
\<close>

definition rounding_fields :: ExtractedFields where
  "rounding_fields =
     [(''fullName'', Some \<lparr>fvalue = ''John Doe'', confidence = 65\<rparr>),
      (''documentNumber'', Some \<lparr>fvalue = ''A12345678'', confidence = 66\<rparr>),
      (''nationality'', Some \<lparr>fvalue = ''USA'', confidence = 66\<rparr>),
      (''mrzLine1'', Some \<lparr>fvalue = ''P<USADOE<<JOHN<<<<<<<<<<<<<<<<<<<<<<<<<<<<<<'',
          confidence = 66\<rparr>),
      (''mrzLine2'', Some \<lparr>fvalue = ''A123456784USA9001159M3012315<<<<<<<<<<<<<<00'',
          confidence = 66\<rparr>),
      (''documentType'', Some \<lparr>fvalue = ''other'', confidence = 66\<rparr>)]"

definition rounding_claim :: ApplicantData where
  "rounding_claim = \<lparr>name = Some ''John Doe'', dateOfBirth = None,
     passportNumber = Some ''B99999999'', nationality = Some ''FRA'',
     intendedVisaType = Some ''tourist''\<rparr>"

definition unparseable_expiry :: ExtractedFields where
  "unparseable_expiry = [(''expiryDate'', Some \<lparr>fvalue = ''not-a-date'', confidence = 90\<rparr>)]"

definition unparseable_dob :: ExtractedFields where
  "unparseable_dob = [(''dateOfBirth'', Some \<lparr>fvalue = ''not-a-date'', confidence = 90\<rparr>)]"

definition dob_claim :: ApplicantData where
  "dob_claim = \<lparr>name = None, dateOfBirth = Some ''1990-01-15'', passportNumber = None,
     nationality = None, intendedVisaType = None\<rparr>"

section \<open>Properties of the arithmetic on doubles\<close>

text \<open>
  An integer below \<open>2^53\<close> is a double, so rounding leaves it alone; a sum of such
  integers that stays below \<open>2^53\<close> is exact.
\<close>

lemma bit_length_le: "n < 2 ^ b \<Longrightarrow> bit_length n \<le> b"
proof (induction n arbitrary: b rule: bit_length.induct)
  case (1 n)
  show ?case
  proof (cases "n = 0")
    case True
    then show ?thesis by simp
  next
    case False
    then obtain b' where b: "b = Suc b'"
      using "1.prems" by (cases b) auto
    have "n div 2 < 2 ^ b'"
      using "1.prems" b by auto
    then have "bit_length (n div 2) \<le> b'"
      using "1.IH" False by blast
    then show ?thesis
      using False b by (subst bit_length.simps) simp
  qed
qed

lemma round_half_even_of_int: "round_half_even (of_int m) = m"
  by (simp add: round_half_even_def)

lemma binary64_of_int:
  assumes "0 \<le> n" and "n < 2 ^ 53"
  shows "binary64 (real_of_int n) = real_of_int n"
proof (cases "n = 0")
  case True
  then show ?thesis by (simp add: binary64_def)
next
  case False
  then have pos: "0 < n" using assms(1) by simp
  then have x1: "1 \<le> real_of_int n" by simp
  have "nat n < 2 ^ 53"
    using assms pos by (simp add: nat_less_iff)
  then have "bit_length (nat n) \<le> 53"
    by (rule bit_length_le)
  then have k: "floor_log2 (real_of_int n) - 52 \<le> 0"
    using x1 by (simp add: floor_log2_def)
  define j where "j = nat (- (floor_log2 (real_of_int n) - 52))"
  have p: "pow2 (floor_log2 (real_of_int n) - 52) = 1 / 2 ^ j"
  proof (cases "floor_log2 (real_of_int n) - 52 = 0")
    case True
    then show ?thesis by (simp add: pow2_def j_def)
  next
    case False
    then show ?thesis using k by (simp add: pow2_def j_def)
  qed
  have "real_of_int n / (1 / 2 ^ j) = real_of_int (n * 2 ^ j)"
    by simp
  then have r: "round_half_even (real_of_int n / (1 / 2 ^ j)) = n * 2 ^ j"
    by (simp only: round_half_even_of_int)
  have "binary64 (real_of_int n) =
          sgn (real_of_int n) * real_of_int (round_half_even (\<bar>real_of_int n\<bar> / (1 / 2 ^ j)))
            * (1 / 2 ^ j)"
    using pos by (simp add: binary64_def p)
  also have "\<dots> = real_of_int (n * 2 ^ j) * (1 / 2 ^ j)"
    using pos r by simp
  also have "\<dots> = real_of_int n"
    by simp
  finally show ?thesis .
qed

lemma dbl_sum_exact:
  assumes "0 \<le> s" and "\<forall>c\<in>set xs. 0 \<le> c" and "s + sum_list xs < 2 ^ 53"
  shows "foldl (\<lambda>a b. dbl_add a (real_of_int b)) (real_of_int s) xs = real_of_int (s + sum_list xs)"
  using assms
proof (induction xs arbitrary: s)
  case Nil
  then show ?case by simp
next
  case (Cons c cs)
  have c: "0 \<le> c" and cs: "\<forall>c\<in>set cs. 0 \<le> c"
    using Cons.prems(2) by auto
  have "0 \<le> sum_list cs"
    using cs by (simp add: sum_list_nonneg)
  then have b: "s + c < 2 ^ 53"
    using Cons.prems(3) by simp
  have "dbl_add (real_of_int s) (real_of_int c) = binary64 (real_of_int (s + c))"
    by (simp add: dbl_add_def)
  also have "\<dots> = real_of_int (s + c)"
    using Cons.prems(1) c b by (intro binary64_of_int) simp_all
  finally have step: "dbl_add (real_of_int s) (real_of_int c) = real_of_int (s + c)" .
  have "foldl (\<lambda>a b. dbl_add a (real_of_int b)) (real_of_int (s + c)) cs =
          real_of_int ((s + c) + sum_list cs)"
    using Cons.prems c cs by (intro Cons.IH) simp_all
  then show ?case
    by (simp add: step add.assoc)
qed

text \<open>The constants the pass-rate rule meets when every check has passed.\<close>

lemma binary64_one: "binary64 1 = 1"
  by code_simp

lemma seven_tenths_below_one: "\<not> 1 < binary64 (7 / 10)"
  by code_simp

lemma passRateRule_Nil: "passRateRule vt [] = None"
  by (simp add: passRateRule_def passRate_def js_divide_def)

lemma passRateRule_passed: "list_all passed cs \<Longrightarrow> passRateRule vt cs = None"
proof (cases "cs = []")
  case True
  then show ?thesis by (simp add: passRateRule_Nil)
next
  case False
  assume "list_all passed cs"
  then have "filter passed cs = cs" by (simp add: list_all_iff)
  then have "passRate cs = Num 1"
    using False by (simp add: passRate_def js_divide_def dbl_div_def binary64_one)
  then show ?thesis
    by (simp add: passRateRule_def seven_tenths_below_one)
qed

section \<open>Properties of the similarity utility\<close>

text \<open>The first two loops leave the first row and the first column of the matrix.\<close>

lemma fold_snoc_rows: "fold (\<lambda>i m. m @ [[i]]) xs m0 = m0 @ map (\<lambda>i. [i]) xs"
  by (induction xs arbitrary: m0) auto

lemma init_rows_eq: "init_rows n2 = map (\<lambda>i. [i]) [0..<Suc n2]"
  unfolding init_rows_def fold_snoc_rows by simp

lemma init_cols_row0:
  "fold (\<lambda>j m. set_cell m 0 j j) [0..<Suc k] ([0] # rest) = [0..<Suc k] # rest"
proof (induction k)
  case 0
  show ?case by (simp add: set_cell_def)
next
  case (Suc k)
  have "[0..<Suc (Suc k)] = [0..<Suc k] @ [Suc k]" by simp
  then show ?case using Suc by (simp add: set_cell_def del: upt_Suc)
qed


lemma dp_col0: "dp s1 s2 i 0 = i"
  by (cases i) auto

lemma dp_row_length: "length (dp_row s1 s2 i k) = Suc k"
  by (simp add: dp_row_def)

lemma dp_row_nth: "j \<le> k \<Longrightarrow> dp_row s1 s2 i k ! j = dp s1 s2 i j"
  unfolding dp_row_def by (metis add.left_neutral le_imp_less_Suc nth_map_upt diff_zero)

lemma dp_row_Suc: "dp_row s1 s2 i (Suc k) = dp_row s1 s2 i k @ [dp s1 s2 i (Suc k)]"
  by (simp add: dp_row_def)

lemma fill_row_prefix:
  assumes len: "Suc i < length m"
    and prev: "m ! i = dp_row s1 s2 i (length s1)"
    and cur: "m ! Suc i = [Suc i]"
    and k: "k \<le> length s1"
  shows "fold (\<lambda>j m. set_cell m (Suc i) j (cell_value s1 s2 m (Suc i) j)) [Suc 0..<Suc k] m
          = m[Suc i := dp_row s1 s2 (Suc i) k]"
  using k
proof (induction k)
  case 0
  have "dp_row s1 s2 (Suc i) 0 = m ! Suc i"
    using cur by (simp add: dp_row_def)
  then have "m[Suc i := dp_row s1 s2 (Suc i) 0] = m"
    by (simp only: list_update_id)
  then show ?case by simp
next
  case (Suc k)
  let ?mk = "m[Suc i := dp_row s1 s2 (Suc i) k]"
  have IH: "fold (\<lambda>j m. set_cell m (Suc i) j (cell_value s1 s2 m (Suc i) j)) [Suc 0..<Suc k] m = ?mk"
    using Suc by simp
  have split: "[Suc 0..<Suc (Suc k)] = [Suc 0..<Suc k] @ [Suc k]" by simp
  have r_cur: "?mk ! Suc i = dp_row s1 s2 (Suc i) k"
    using len by simp
  have r_prev: "?mk ! i = dp_row s1 s2 i (length s1)"
    using prev by simp
  have k1: "Suc k \<le> length s1" using Suc.prems .
  have cv: "cell_value s1 s2 ?mk (Suc i) (Suc k) = dp s1 s2 (Suc i) (Suc k)"
    using k1 by (simp add: cell_value_def r_cur r_prev dp_row_nth)
  have "set_cell ?mk (Suc i) (Suc k) (dp s1 s2 (Suc i) (Suc k))
          = m[Suc i := dp_row s1 s2 (Suc i) (Suc k)]"
    unfolding set_cell_def r_cur by (simp add: dp_row_length dp_row_Suc)
  then show ?case
    unfolding split fold_append by (simp add: IH cv del: upt_Suc)
qed

lemma fill_row_eq:
  assumes "Suc i < length m" "m ! i = dp_row s1 s2 i (length s1)" "m ! Suc i = [Suc i]"
  shows "fill_row s1 s2 m (Suc i) = m[Suc i := dp_row s1 s2 (Suc i) (length s1)]"
  unfolding fill_row_def using fill_row_prefix [OF assms, of "length s1"] by (simp del: upt_Suc)

lemma partial_matrix_0:
  "init_cols (length s1) (init_rows (length s2)) = partial_matrix s1 s2 0"
proof -
  have "init_rows (length s2) = [0] # map (\<lambda>i. [i]) [Suc 0..<Suc (length s2)]"
    unfolding init_rows_eq by (simp add: upt_conv_Cons del: upt_Suc)
  then have "init_cols (length s1) (init_rows (length s2))
      = [0..<Suc (length s1)] # map (\<lambda>i. [i]) [Suc 0..<Suc (length s2)]"
    unfolding init_cols_def by (simp only: init_cols_row0)
  moreover have "dp_row s1 s2 0 (length s1) = [0..<Suc (length s1)]"
    unfolding dp_row_def by (simp add: map_idI del: upt_Suc)
  moreover have "[0..<Suc 0] = [0]" by simp
  ultimately show ?thesis by (simp add: partial_matrix_def del: upt_Suc)
qed

lemma partial_matrix_length: "k \<le> length s2 \<Longrightarrow> length (partial_matrix s1 s2 k) = Suc (length s2)"
  by (auto simp: partial_matrix_def simp del: upt_Suc)

lemma partial_matrix_done:
  "i \<le> k \<Longrightarrow> partial_matrix s1 s2 k ! i = dp_row s1 s2 i (length s1)"
  unfolding partial_matrix_def
  by (simp add: nth_append del: upt_Suc)

lemma partial_matrix_todo:
  assumes "k < i" "i \<le> length s2"
  shows "partial_matrix s1 s2 k ! i = [i]"
proof -
  have "[Suc k..<Suc (length s2)] ! (i - Suc k) = Suc k + (i - Suc k)"
    using assms by (intro nth_upt) arith
  then show ?thesis
    using assms unfolding partial_matrix_def by (simp add: nth_append del: upt_Suc)
qed

lemma partial_matrix_step:
  assumes "Suc k \<le> length s2"
  shows "(partial_matrix s1 s2 k)[Suc k := dp_row s1 s2 (Suc k) (length s1)] = partial_matrix s1 s2 (Suc k)"
proof (rule nth_equalityI)
  show "length ((partial_matrix s1 s2 k)[Suc k := dp_row s1 s2 (Suc k) (length s1)]) =
    length (partial_matrix s1 s2 (Suc k))"
    using assms by (simp add: partial_matrix_length)
next
  fix i assume "i < length ((partial_matrix s1 s2 k)[Suc k := dp_row s1 s2 (Suc k) (length s1)])"
  then have i: "i \<le> length s2" using assms by (simp add: partial_matrix_length)
  consider "i \<le> k" | "i = Suc k" | "Suc k < i" by linarith
  then show "(partial_matrix s1 s2 k)[Suc k := dp_row s1 s2 (Suc k) (length s1)] ! i =
         partial_matrix s1 s2 (Suc k) ! i"
  proof cases
    case 1
    then show ?thesis by (simp add: partial_matrix_done)
  next
    case 2
    then show ?thesis using assms by (simp add: partial_matrix_done partial_matrix_length)
  next
    case 3
    then show ?thesis using i by (simp add: partial_matrix_todo)
  qed
qed

lemma fill_matrix_prefix:
  "k \<le> length s2 \<Longrightarrow>
   fold (\<lambda>i m. fill_row s1 s2 m i) [Suc 0..<Suc k] (partial_matrix s1 s2 0) = partial_matrix s1 s2 k"
proof (induction k)
  case 0
  show ?case by simp
next
  case (Suc k)
  have split: "[Suc 0..<Suc (Suc k)] = [Suc 0..<Suc k] @ [Suc k]" by simp
  have IH: "fold (\<lambda>i m. fill_row s1 s2 m i) [Suc 0..<Suc k] (partial_matrix s1 s2 0) = partial_matrix s1 s2 k"
    using Suc by simp
  have "fill_row s1 s2 (partial_matrix s1 s2 k) (Suc k)
      = (partial_matrix s1 s2 k)[Suc k := dp_row s1 s2 (Suc k) (length s1)]"
    using Suc.prems
    by (intro fill_row_eq) (simp_all add: partial_matrix_length partial_matrix_done partial_matrix_todo)
  then show ?case
    unfolding split fold_append using Suc.prems by (simp add: IH partial_matrix_step del: upt_Suc)
qed

lemma levenshteinDistance_dp:
  "levenshteinDistance s1 s2 = dp s1 s2 (length s2) (length s1)"
  unfolding levenshteinDistance_def fill_matrix_def partial_matrix_0
  by (simp add: fill_matrix_prefix partial_matrix_done dp_row_nth del: upt_Suc)

lemma lev_col0: "lev a b i 0 = i"
  by (cases i) auto

lemma lev_up: "lev a b (Suc i) j \<le> lev a b i j + 1"
  by (cases j) (auto simp: lev_col0)

lemma lev_left: "lev a b i (Suc j) \<le> lev a b i j + 1"
  by (cases i) auto

lemma lev_right: "lev a b i j \<le> lev a b i (Suc j) + 1"
proof (induction i arbitrary: j)
  case 0
  show ?case by simp
next
  case (Suc i)
  have "lev a b (Suc i) j \<le> lev a b i j + 1" by (rule lev_up)
  moreover have "lev a b i j \<le> lev a b i (Suc j) + 1" by (rule Suc.IH)
  ultimately show ?case by (auto simp: min_def)
qed

lemma lev_down: "lev a b i j \<le> lev a b (Suc i) j + 1"
proof (induction j arbitrary: i)
  case 0
  show ?case by (simp add: lev_col0)
next
  case (Suc j)
  have "lev a b i (Suc j) \<le> lev a b i j + 1" by (rule lev_left)
  moreover have "lev a b i j \<le> lev a b (Suc i) j + 1" by (rule Suc.IH)
  ultimately show ?case by (auto simp: min_def)
qed

lemma lev_match:
  "a ! i = b ! j \<Longrightarrow> lev a b (Suc i) (Suc j) = lev a b i j"
  using lev_right [of a b i j] lev_down [of a b i j] by (simp add: min_def)

lemma dp_lev: "dp s1 s2 i j = lev s2 s1 i j"
proof (induction s1 s2 i j rule: dp.induct)
  case (3 s1 s2 i j)
  show ?case
  proof (cases "s2 ! i = s1 ! j")
    case True
    have "dp s1 s2 (Suc i) (Suc j) = dp s1 s2 i j" using True by simp
    also have "\<dots> = lev s2 s1 i j" using 3 True by simp
    also have "\<dots> = lev s2 s1 (Suc i) (Suc j)" using lev_match [OF True] by simp
    finally show ?thesis .
  next
    case False
    then show ?thesis using 3 by (simp add: min_def)
  qed
qed simp_all

lemma lev_sym: "lev a b i j = lev b a j i"
proof (induction a b i j rule: lev.induct)
  case (1 a b j)
  show ?case by (simp add: lev_col0)
next
  case (2 a b i)
  show ?case by simp
next
  case (3 a b i j)
  then show ?case by (simp add: min.commute min.left_commute eq_commute [of "a ! i"])
qed

lemma lev_le_max: "lev a b i j \<le> max i j"
  by (induction a b i j rule: lev.induct) (auto simp: min_def)

lemma lev_diag: "lev s s i i = 0"
proof (induction i)
  case (Suc i)
  have "lev s s (Suc i) (Suc i) = lev s s i i" by (rule lev_match) simp
  then show ?case using Suc by simp
qed simp

lemma levenshteinDistance_eq: "levenshteinDistance a b = levenshtein a b"
  by (simp add: levenshteinDistance_dp dp_lev levenshtein_def lev_sym [of b a])

lemma levenshtein_sym: "levenshtein a b = levenshtein b a"
  by (simp add: levenshtein_def lev_sym [of a b])

lemma levenshtein_le: "levenshtein a b \<le> max (length a) (length b)"
  by (simp add: levenshtein_def lev_le_max)

lemma levenshtein_same: "levenshtein s s = 0"
  by (simp add: levenshtein_def lev_diag)

lemma calculateSimilarity_eq:
  "calculateSimilarity a b =
     (if max (length a) (length b) = 0 then 1
      else 1 - of_nat (levenshtein a b) / of_nat (max (length a) (length b)))"
proof (cases "length a > length b")
  case True
  then have m: "max (length a) (length b) = length a" "length a \<noteq> 0" by auto
  show ?thesis
    using True m by (simp add: calculateSimilarity_def levenshteinDistance_eq diff_divide_distrib)
next
  case False
  then have m: "max (length a) (length b) = length b" by auto
  show ?thesis
  proof (cases "length b = 0")
    case True
    then show ?thesis using False by (simp add: calculateSimilarity_def)
  next
    case nz: False
    then show ?thesis
      using False m
      by (simp add: calculateSimilarity_def levenshteinDistance_eq diff_divide_distrib
          levenshtein_sym [of b a])
  qed
qed

text \<open>
  Claim C8. For all strings, \<open>calculateSimilarity\<close> is one minus the Levenshtein
  distance over the greater length (and 1 when both strings are empty, where the code
  returns before it divides); it lies between 0 and 1, is symmetric, and is 1 on equal
  arguments and on two empty strings.
\<close>

theorem calculateSimilarity_properties:
  "calculateSimilarity a b =
     (if max (length a) (length b) = 0 then 1
      else 1 - of_nat (levenshtein a b) / of_nat (max (length a) (length b)))
   \<and> 0 \<le> calculateSimilarity a b \<and> calculateSimilarity a b \<le> 1
   \<and> calculateSimilarity a b = calculateSimilarity b a
   \<and> calculateSimilarity s s = 1
   \<and> calculateSimilarity [] [] = 1"
proof (intro conjI)
  show "calculateSimilarity a b =
     (if max (length a) (length b) = 0 then 1
      else 1 - of_nat (levenshtein a b) / of_nat (max (length a) (length b)))"
    by (rule calculateSimilarity_eq)
  have le: "(of_nat (levenshtein a b) :: real) \<le> of_nat (max (length a) (length b))"
    using levenshtein_le [of a b] by (simp only: of_nat_le_iff)
  show "0 \<le> calculateSimilarity a b"
    unfolding calculateSimilarity_eq using le
    by (auto simp: divide_le_eq_1 simp del: of_nat_max)
  show "calculateSimilarity a b \<le> 1"
    unfolding calculateSimilarity_eq by simp
  show "calculateSimilarity a b = calculateSimilarity b a"
    unfolding calculateSimilarity_eq by (simp add: levenshtein_sym [of a b] max.commute)
  show "calculateSimilarity s s = 1"
    unfolding calculateSimilarity_eq by (simp add: levenshtein_same)
  show "calculateSimilarity [] [] = 1"
    unfolding calculateSimilarity_eq by simp
qed


theorem calculateSimilarity_properties_witness:
  "calculateSimilarity ''john doe'' ''jon doe'' = 7 / 8
   \<and> calculateSimilarity ''jon doe'' ''john doe'' = 7 / 8
   \<and> calculateSimilarity ''john doe'' ''john doe'' = 1"
proof -
  have l: "levenshtein ''john doe'' ''jon doe'' = 1"
    using levenshteinDistance_eq [of "''john doe''" "''jon doe''", symmetric]
    by (simp add: levenshteinDistance_dp)
  show ?thesis
    using calculateSimilarity_properties [of "''john doe''" "''jon doe''" "''john doe''"]
    by (simp add: l)
qed

section \<open>Properties of the MRZ validator\<close>

lemma validMRZChars_test_iff:
  "s \<noteq> [] \<Longrightarrow> validMRZChars_test s = (\<forall>c\<in>set s. isMRZChar c)"
  by (simp add: validMRZChars_test_def list_all_iff)

lemma lower_not_MRZ: "isLower c \<Longrightarrow> \<not> isMRZChar c"
  by (auto simp: isLower_def isMRZChar_def isUpper_def isDigit_def)

text \<open>
  Claim C7. Two lines of length 44 are treated as TD-3 and three lines of length 30 as
  TD-1; for these the result is true iff every participating line consists only of
  \<open>A-Z\<close>, \<open>0-9\<close> and \<open><\<close>. Hence a 44/44 pair over that alphabet passes whatever
  its content, and a 44/44 pair with a lower-case letter in a line fails. Every other
  combination of lengths returns true.
\<close>

theorem validateMRZ_classification:
  "(length l1 = 44 \<and> length l2 = 44 \<longrightarrow>
      validateMRZ l1 l2 l3 = ((\<forall>c\<in>set l1. isMRZChar c) \<and> (\<forall>c\<in>set l2. isMRZChar c)))
   \<and> (length l1 = 44 \<and> length l2 = 44 \<and> (\<forall>c\<in>set l1 \<union> set l2. isUpper c \<or> isDigit c \<or> c = CHR ''<'') \<longrightarrow>
      validateMRZ l1 l2 l3)
   \<and> (length l1 = 44 \<and> length l2 = 44 \<and> (\<exists>c\<in>set l1 \<union> set l2. isLower c) \<longrightarrow>
      \<not> validateMRZ l1 l2 l3)
   \<and> (length l1 = 30 \<and> length l2 = 30 \<and> length s3 = 30 \<longrightarrow>
      validateMRZ l1 l2 (Some s3) =
        ((\<forall>c\<in>set l1. isMRZChar c) \<and> (\<forall>c\<in>set l2. isMRZChar c) \<and> (\<forall>c\<in>set s3. isMRZChar c)))
   \<and> (\<not> (length l1 = 44 \<and> length l2 = 44) \<and>
       \<not> (length l1 = 30 \<and> length l2 = 30 \<and> (\<exists>s3. l3 = Some s3 \<and> length s3 = 30)) \<longrightarrow>
      validateMRZ l1 l2 l3)"
proof (intro conjI impI)
  assume h: "length l1 = 44 \<and> length l2 = 44"
  then have ne: "l1 \<noteq> []" "l2 \<noteq> []" by auto
  show "validateMRZ l1 l2 l3 = ((\<forall>c\<in>set l1. isMRZChar c) \<and> (\<forall>c\<in>set l2. isMRZChar c))"
    using h by (simp add: validateMRZ_def validateTD3Checksum_def validMRZChars_test_iff [OF ne(1)]
        validMRZChars_test_iff [OF ne(2)])
next
  assume h: "length l1 = 44 \<and> length l2 = 44 \<and>
    (\<forall>c\<in>set l1 \<union> set l2. isUpper c \<or> isDigit c \<or> c = CHR ''<'')"
  then have ne: "l1 \<noteq> []" "l2 \<noteq> []" by auto
  have "\<forall>c\<in>set l1 \<union> set l2. isMRZChar c"
    using h by (auto simp: isMRZChar_def)
  then show "validateMRZ l1 l2 l3"
    using h by (simp add: validateMRZ_def validateTD3Checksum_def validMRZChars_test_iff [OF ne(1)]
        validMRZChars_test_iff [OF ne(2)])
next
  assume h: "length l1 = 44 \<and> length l2 = 44 \<and> (\<exists>c\<in>set l1 \<union> set l2. isLower c)"
  then have ne: "l1 \<noteq> []" "l2 \<noteq> []" by auto
  from h obtain c where "c \<in> set l1 \<union> set l2" "\<not> isMRZChar c"
    using lower_not_MRZ by blast
  then show "\<not> validateMRZ l1 l2 l3"
    using h by (auto simp: validateMRZ_def validateTD3Checksum_def validMRZChars_test_iff [OF ne(1)]
        validMRZChars_test_iff [OF ne(2)])
next
  assume h: "length l1 = 30 \<and> length l2 = 30 \<and> length s3 = 30"
  then have ne: "l1 \<noteq> []" "l2 \<noteq> []" "s3 \<noteq> []" by auto
  show "validateMRZ l1 l2 (Some s3) =
        ((\<forall>c\<in>set l1. isMRZChar c) \<and> (\<forall>c\<in>set l2. isMRZChar c) \<and> (\<forall>c\<in>set s3. isMRZChar c))"
    using h ne by (simp add: validateMRZ_def validateTD1Checksum_def validMRZChars_test_iff [OF ne(1)]
        validMRZChars_test_iff [OF ne(2)] validMRZChars_test_iff [OF ne(3)])
next
  assume "\<not> (length l1 = 44 \<and> length l2 = 44) \<and>
       \<not> (length l1 = 30 \<and> length l2 = 30 \<and> (\<exists>s3. l3 = Some s3 \<and> length s3 = 30))"
  then show "validateMRZ l1 l2 l3"
    by (auto simp: validateMRZ_def split: option.splits)
qed

theorem validateMRZ_classification_witness:
  "validateMRZ ''P<UTOERIKSSON<<ANNA<MARIA<<<<<<<<<<<<<<<<<<<''
               ''L898902C36UTO7408122F1204159ZE184226B<<<<<10'' None
   \<and> \<not> validateMRZ ''P<UTOERIKSSON<<Anna<MARIA<<<<<<<<<<<<<<<<<<<''
               ''L898902C36UTO7408122F1204159ZE184226B<<<<<10'' None
   \<and> validateMRZ ''I<UTOD231458907<<<<<<<<<<<<<<<'' ''7408122F1204159UTO<<<<<<<<<<<6''
               (Some ''ERIKSSON<<ANNA<MARIA<<<<<<<<<<'')
   \<and> validateMRZ ''p<uto'' ''l898902c36'' None"
proof -
  have a: "validateMRZ ''P<UTOERIKSSON<<ANNA<MARIA<<<<<<<<<<<<<<<<<<<''
               ''L898902C36UTO7408122F1204159ZE184226B<<<<<10'' None"
    using validateMRZ_classification
      [of "''P<UTOERIKSSON<<ANNA<MARIA<<<<<<<<<<<<<<<<<<<''"
          "''L898902C36UTO7408122F1204159ZE184226B<<<<<10''" None]
    by (simp add: isMRZChar_def isUpper_def isDigit_def)
  have b: "\<not> validateMRZ ''P<UTOERIKSSON<<Anna<MARIA<<<<<<<<<<<<<<<<<<<''
               ''L898902C36UTO7408122F1204159ZE184226B<<<<<10'' None"
    using validateMRZ_classification
      [of "''P<UTOERIKSSON<<Anna<MARIA<<<<<<<<<<<<<<<<<<<''"
          "''L898902C36UTO7408122F1204159ZE184226B<<<<<10''" None]
    by (simp add: isLower_def isMRZChar_def isUpper_def isDigit_def)
  have c: "validateMRZ ''I<UTOD231458907<<<<<<<<<<<<<<<'' ''7408122F1204159UTO<<<<<<<<<<<6''
               (Some ''ERIKSSON<<ANNA<MARIA<<<<<<<<<<'')"
    using validateMRZ_classification
      [of "''I<UTOD231458907<<<<<<<<<<<<<<<''" "''7408122F1204159UTO<<<<<<<<<<<6''" _
          "''ERIKSSON<<ANNA<MARIA<<<<<<<<<<''"]
    by (simp add: isMRZChar_def isUpper_def isDigit_def)
  have d: "validateMRZ ''p<uto'' ''l898902c36'' None"
    using validateMRZ_classification [of "''p<uto''" "''l898902c36''" None]
    by simp
  from a b c d show ?thesis by blast
qed

section \<open>Properties of the validator and the eligibility engine\<close>

lemma fieldValue_Nil: "fieldValue [] k = None"
  by (simp add: fieldValue_def getField_def truthy_def)

lemma getField_Nil: "getField [] k = None"
  by (simp add: getField_def)

lemma validateDocument_Nil:
  "validateDocument e [] applicantData =
     [\<lparr>field = ''confidence'', passed = True,
       message = ''All extracted fields have acceptable confidence scores''\<rparr>]"
  by (simp add: validateDocument_def expiryCheck_def issueDateCheck_def nameCheck_def
      dateOfBirthCheck_def documentNumberCheck_def nationalityCheck_def mrzCheck_def
      documentTypeCheck_def confidenceCheck_def fieldValue_Nil getField_Nil split: option.splits)

lemma criticalFailures_confidence:
  "criticalFailures [\<lparr>field = ''confidence'', passed = True, message = m\<rparr>] = []"
  by (simp add: criticalFailures_def)

lemma assess_Nil:
  "assessEligibility e [] applicantData
     [\<lparr>field = ''confidence'', passed = True, message = m\<rparr>]
   = accepted (requestedVisaType applicantData)"
proof -
  have "passRateRule (requestedVisaType applicantData)
          [\<lparr>field = ''confidence'', passed = True, message = m\<rparr>] = None"
    by (rule passRateRule_passed) simp
  then show ?thesis
    by (simp add: assessEligibility_def criticalFailures_confidence ageRule_def validityRule_def
        allowedRule_def deniedRule_def confidenceRule_def lowConfidenceCount_def
        Let_def fieldValue_Nil split: option.splits)
qed

lemma overall_Nil:
  "calculateOverallConfidence []
     [\<lparr>field = ''confidence'', passed = True,
       message = ''All extracted fields have acceptable confidence scores''\<rparr>] = 70"
  by code_simp

text \<open>
  Claim C9. For the empty mapping and every applicant claim (and every answer of the
  clock and the date library), \<open>validateDocument\<close> returns exactly the passed
  \<open>confidence\<close> check, \<open>assessEligibility\<close> on that output accepts, and
  \<open>calculateOverallConfidence\<close> is 70.
\<close>

theorem empty_extraction:
  "validateDocument e [] applicantData =
     [\<lparr>field = ''confidence'', passed = True,
       message = ''All extracted fields have acceptable confidence scores''\<rparr>]
   \<and> eligible (assessEligibility e [] applicantData (validateDocument e [] applicantData))
   \<and> calculateOverallConfidence [] (validateDocument e [] applicantData) = 70"
  by (simp add: validateDocument_Nil assess_Nil overall_Nil accepted_def)

theorem empty_extraction_witness:
  "validateDocument example_env [] john_doe_claim =
     [\<lparr>field = ''confidence'', passed = True,
       message = ''All extracted fields have acceptable confidence scores''\<rparr>]
   \<and> assessEligibility example_env [] john_doe_claim
       (validateDocument example_env [] john_doe_claim) =
     \<lparr>eligible = True,
      reason = ''Applicant meets all eligibility requirements for tourist visa. Document is valid and all required fields verified.'',
      visaType = Some ''tourist''\<rparr>
   \<and> calculateOverallConfidence [] (validateDocument example_env [] john_doe_claim) = 70"
proof -
  have a: "assessEligibility example_env [] john_doe_claim
       (validateDocument example_env [] john_doe_claim) =
     \<lparr>eligible = True,
      reason = ''Applicant meets all eligibility requirements for tourist visa. Document is valid and all required fields verified.'',
      visaType = Some ''tourist''\<rparr>"
    by code_simp
  show ?thesis
    using empty_extraction [of example_env john_doe_claim] a by blast
qed

text \<open>
  Every policy of the table requires a valid passport; the selected object does not when
  the request, in lower case, is one of the two inherited property names.
\<close>

lemma policy_requires_passport_iff:
  "pol_requiresValidPassport (selectPolicy vt) \<longleftrightarrow>
     toLowerCase vt \<noteq> ''constructor'' \<and> toLowerCase vt \<noteq> ''__proto__''"
  by (simp add: selectPolicy_def eligibilityPolicies_def tourist_def business_def student_def
      work_def transit_def)

lemma criticalFailures_filter:
  "criticalFailures cs =
     filter (\<lambda>c. \<not> passed c \<and> field c \<in> {''expiryDate'', ''documentNumber'', ''dateOfBirth'', ''name''}) cs"
  by (induction cs) (auto simp: criticalFailures_def criticalFields_def)

text \<open>
  Claim C1. When the selected policy requires a valid passport and some check on one of
  the four critical fields has failed, \<open>assessEligibility\<close> rejects, and its reason
  joins the messages of exactly the failed critical checks, in order, with \<open>; \<close>
  (after the fixed prefix of the message). The result is the same for every mapping of
  extracted fields and every answer of the date library: no later rule is consulted.
\<close>

theorem critical_failures_reject:
  assumes "pol_requiresValidPassport (selectPolicy (requestedVisaType applicantData))"
    and "\<exists>c\<in>set validationChecks. \<not> passed c \<and>
           field c \<in> {''expiryDate'', ''documentNumber'', ''dateOfBirth'', ''name''}"
  shows "assessEligibility e extractedFields applicantData validationChecks =
           \<lparr>eligible = False,
            reason = ''Critical validation failures: '' @ js_join ''; '' (map message
              (filter (\<lambda>c. \<not> passed c \<and>
                 field c \<in> {''expiryDate'', ''documentNumber'', ''dateOfBirth'', ''name''})
                 validationChecks)),
            visaType = Some (requestedVisaType applicantData)\<rparr>
         \<and> assessEligibility e' extractedFields' applicantData validationChecks =
             assessEligibility e extractedFields applicantData validationChecks"
proof -
  have "criticalFailures validationChecks \<noteq> []"
    using assms(2) unfolding criticalFailures_filter by (simp add: filter_empty_conv)
  then have "length (criticalFailures validationChecks) > 0" by simp
  then have "\<And>e ef. assessEligibility e ef applicantData validationChecks =
           \<lparr>eligible = False,
            reason = ''Critical validation failures: '' @ js_join ''; '' (map message
              (criticalFailures validationChecks)),
            visaType = Some (requestedVisaType applicantData)\<rparr>"
    using assms(1) by (simp add: assessEligibility_def Let_def)
  then show ?thesis by (simp add: criticalFailures_filter)
qed

theorem critical_failures_reject_witness:
  "assessEligibility example_env
      [(''dateOfBirth'', Some \<lparr>fvalue = ''1990-01-15'', confidence = 90\<rparr>)]
      \<lparr>name = Some ''John Doe'', dateOfBirth = Some ''1985-05-05'',
       passportNumber = None, nationality = None, intendedVisaType = Some ''Student''\<rparr>
      [\<lparr>field = ''expiryDate'', passed = False, message = ''Document expired on 2020-01-01''\<rparr>,
       \<lparr>field = ''name'', passed = True, message = ''Name matches application''\<rparr>,
       \<lparr>field = ''dateOfBirth'', passed = False, message = ''DOB mismatch''\<rparr>,
       \<lparr>field = ''age'', passed = False, message = ''Invalid age calculated''\<rparr>,
       \<lparr>field = ''confidence'', passed = True, message = ''ok''\<rparr>]
   = \<lparr>eligible = False,
      reason = ''Critical validation failures: Document expired on 2020-01-01; DOB mismatch'',
      visaType = Some ''Student''\<rparr>"
proof -
  let ?ad = "\<lparr>name = Some ''John Doe'', dateOfBirth = Some ''1985-05-05'',
       passportNumber = None, nationality = None, intendedVisaType = Some ''Student''\<rparr>"
  let ?cs = "[\<lparr>field = ''expiryDate'', passed = False, message = ''Document expired on 2020-01-01''\<rparr>,
       \<lparr>field = ''name'', passed = True, message = ''Name matches application''\<rparr>,
       \<lparr>field = ''dateOfBirth'', passed = False, message = ''DOB mismatch''\<rparr>,
       \<lparr>field = ''age'', passed = False, message = ''Invalid age calculated''\<rparr>,
       \<lparr>field = ''confidence'', passed = True, message = ''ok''\<rparr>]"
  have r: "requestedVisaType ?ad = ''Student''"
    by (simp add: requestedVisaType_def truthy_def)
  have lc: "toLowerCase ''Student'' = ''student''"
    by code_simp
  have p: "pol_requiresValidPassport (selectPolicy (requestedVisaType ?ad))"
    unfolding r by (simp add: selectPolicy_def lc eligibilityPolicies_def student_def)
  have f: "\<exists>c\<in>set ?cs. \<not> passed c \<and>
           field c \<in> {''expiryDate'', ''documentNumber'', ''dateOfBirth'', ''name''}"
    by simp
  show ?thesis
    using critical_failures_reject [OF p f, of example_env
        "[(''dateOfBirth'', Some \<lparr>fvalue = ''1990-01-15'', confidence = 90\<rparr>)]"
        example_env "[]"]
    by (simp add: r)
qed

lemma ageRule_visaType: "ageRule e p vt ef = Some r \<Longrightarrow> visaType r = Some vt"
  by (auto simp: ageRule_def Let_def split: option.splits sum.splits if_splits)

lemma validityRule_visaType: "validityRule e p vt ef = Some r \<Longrightarrow> visaType r = Some vt"
  by (auto simp: validityRule_def Let_def split: option.splits sum.splits if_splits)

lemma allowedRule_visaType: "allowedRule p vt ef = Some r \<Longrightarrow> visaType r = Some vt"
  by (auto simp: allowedRule_def Let_def split: option.splits if_splits)

lemma deniedRule_visaType: "deniedRule p vt ef = Some r \<Longrightarrow> visaType r = Some vt"
  by (auto simp: deniedRule_def Let_def split: option.splits if_splits)

lemma confidenceRule_visaType: "confidenceRule vt ef = Some r \<Longrightarrow> visaType r = Some vt"
  by (auto simp: confidenceRule_def split: if_splits)

lemma passRateRule_visaType: "passRateRule vt cs = Some r \<Longrightarrow> visaType r = Some vt"
  by (auto simp: passRateRule_def split: js_number.splits if_splits)

lemma assess_visaType:
  "visaType (assessEligibility e ef ad cs) = Some (requestedVisaType ad)"
  unfolding assessEligibility_def Let_def
  by (auto simp: accepted_def split: option.splits
      dest: ageRule_visaType validityRule_visaType allowedRule_visaType deniedRule_visaType
        confidenceRule_visaType passRateRule_visaType)

lemma toLowerCase_keys:
  "toLowerCase ''tourist'' = ''tourist''" "toLowerCase ''business'' = ''business''"
  "toLowerCase ''student'' = ''student''" "toLowerCase ''work'' = ''work''"
  "toLowerCase ''transit'' = ''transit''"
  by code_simp+

lemma selectPolicy_keys:
  assumes "vt \<in> {''tourist'', ''business'', ''student'', ''work'', ''transit''}"
  shows "pol_visaType (selectPolicy vt) = Some vt"
  using assms
  by (auto simp: selectPolicy_def toLowerCase_keys eligibilityPolicies_def tourist_def
      business_def student_def work_def transit_def)

text \<open>
  Claim C4, as amended. Every branch of \<open>assessEligibility\<close>, the first rejection
  included, returns as \<open>visaType\<close> the requested string
  (\<open>applicantData.intendedVisaType\<close>, or \<open>tourist\<close> when that is missing or empty).
  It equals the key of the selected policy when the requested string is one of the five
  keys as written in the table.
\<close>

theorem visaType_is_requested:
  "visaType (assessEligibility e extractedFields applicantData validationChecks) =
     Some (requestedVisaType applicantData)
   \<and> (intendedVisaType applicantData = None \<or> intendedVisaType applicantData = Some [] \<longrightarrow>
        requestedVisaType applicantData = ''tourist'')
   \<and> (requestedVisaType applicantData \<in> {''tourist'', ''business'', ''student'', ''work'', ''transit''} \<longrightarrow>
        pol_visaType (selectPolicy (requestedVisaType applicantData)) =
          visaType (assessEligibility e extractedFields applicantData validationChecks))"
  using selectPolicy_keys [of "requestedVisaType applicantData"]
  by (auto simp: assess_visaType requestedVisaType_def truthy_def)

theorem visaType_is_requested_witness:
  "visaType (assessEligibility example_env [] (request_for ''work'') []) = Some ''work''
   \<and> pol_visaType (selectPolicy ''work'') = Some ''work''
   \<and> requestedVisaType no_claim = ''tourist''"
  using visaType_is_requested [of example_env "[]" "request_for ''work''" "[]"]
    visaType_is_requested [of example_env "[]" no_claim "[]"]
  by (simp add: request_for_def requestedVisaType_def truthy_def no_claim_def)

lemma toLowerCase_examples:
  "toLowerCase ''Business'' = ''business''" "toLowerCase ''diplomatic'' = ''diplomatic''"
  by code_simp+

text \<open>
  Claim C4 as stated fails: a request for \<open>Business\<close> selects the policy
  \<open>business\<close> and a request for \<open>diplomatic\<close> the policy \<open>tourist\<close>; both are
  accepted on the empty extraction (so not in the first rejection branch), and the
  result carries the requested string, not the key of the policy.
\<close>

theorem visaType_not_resolved_key:
  "eligible (assessEligibility example_env [] (request_for ''Business'')
      (validateDocument example_env [] (request_for ''Business'')))
   \<and> visaType (assessEligibility example_env [] (request_for ''Business'')
      (validateDocument example_env [] (request_for ''Business''))) = Some ''Business''
   \<and> pol_visaType (selectPolicy (requestedVisaType (request_for ''Business''))) = Some ''business''
   \<and> eligible (assessEligibility example_env [] (request_for ''diplomatic'')
      (validateDocument example_env [] (request_for ''diplomatic'')))
   \<and> visaType (assessEligibility example_env [] (request_for ''diplomatic'')
      (validateDocument example_env [] (request_for ''diplomatic''))) = Some ''diplomatic''
   \<and> pol_visaType (selectPolicy (requestedVisaType (request_for ''diplomatic''))) = Some ''tourist''"
  by (simp add: validateDocument_Nil assess_Nil accepted_def request_for_def requestedVisaType_def
      truthy_def selectPolicy_def toLowerCase_examples eligibilityPolicies_def business_def
      tourist_def)

lemma ageRule_reason: "ageRule e p vt ef = Some r \<Longrightarrow> take 1 (reason r) \<noteq> ''I''"
  by (auto simp: ageRule_def Let_def split: option.splits sum.splits if_splits)

lemma validityRule_reason: "validityRule e p vt ef = Some r \<Longrightarrow> take 1 (reason r) \<noteq> ''I''"
  by (auto simp: validityRule_def Let_def split: option.splits sum.splits if_splits)

lemma allowedRule_reason: "allowedRule p vt ef = Some r \<Longrightarrow> take 1 (reason r) \<noteq> ''I''"
  by (auto simp: allowedRule_def Let_def split: option.splits if_splits)

lemma deniedRule_reason: "deniedRule p vt ef = Some r \<Longrightarrow> take 1 (reason r) \<noteq> ''I''"
  by (auto simp: deniedRule_def Let_def split: option.splits if_splits)

lemma confidenceRule_reason: "confidenceRule vt ef = Some r \<Longrightarrow> take 1 (reason r) \<noteq> ''I''"
  by (auto simp: confidenceRule_def split: if_splits)

lemma criticalFailures_passed: "list_all passed cs \<Longrightarrow> criticalFailures cs = []"
  by (induction cs) (auto simp: criticalFailures_def)

lemma assess_Nil_checks_reason:
  "take 1 (reason (assessEligibility e ef ad [])) \<noteq> ''I''"
  unfolding assessEligibility_def Let_def
  by (auto simp: accepted_def passRateRule_Nil criticalFailures_def split: option.splits
      dest: ageRule_reason validityRule_reason allowedRule_reason deniedRule_reason
        confidenceRule_reason)

lemma assess_all_passed:
  assumes "list_all passed cs"
  shows "assessEligibility e ef ad cs = assessEligibility e ef ad []"
proof -
  have a: "criticalFailures cs = []"
    using assms by (rule criticalFailures_passed)
  have b: "criticalFailures [] = []"
    by (simp add: criticalFailures_def)
  have c: "passRateRule (requestedVisaType ad) cs = None"
    using assms by (rule passRateRule_passed)
  have d: "passRateRule (requestedVisaType ad) [] = None"
    by (rule passRateRule_Nil)
  show ?thesis
    unfolding assessEligibility_def Let_def a b c d by (rule refl)
qed

text \<open>
  The percentage of the rejection is computed on doubles: with 23 of 40 checks passed the
  product of the rounded quotient by 100 is the double just below 57.5, and the message
  says 57.
\<close>

lemma passRateRule_percentage:
  "map_option reason
     (passRateRule ''tourist''
        (replicate 23 \<lparr>field = ''f'', passed = True, message = ''m''\<rparr> @
         replicate 17 \<lparr>field = ''f'', passed = False, message = ''m''\<rparr>)) =
   Some ''Insufficient validation pass rate (57%). Multiple checks failed.''"
  by code_simp

text \<open>
  Claim C6, as amended. The pass-rate rule does not test its divisor and is not skipped:
  with no validation check its quotient is \<open>0 / 0\<close>, which is \<open>NaN\<close> and not an
  exception; \<open>NaN < 0.7\<close> is false, so the rule rejects nothing. For every mapping,
  claim and date library, \<open>assessEligibility\<close> on the empty sequence returns a result
  whose reason is not the pass-rate rejection, and it is the result for any sequence of
  passed checks.
\<close>

theorem empty_checks_pass_rate:
  "passRate [] = NaN
   \<and> passRateRule vt [] = None
   \<and> take 35 (reason (assessEligibility e extractedFields applicantData [])) \<noteq>
       ''Insufficient validation pass rate (''
   \<and> (list_all passed validationChecks \<longrightarrow>
        assessEligibility e extractedFields applicantData [] =
        assessEligibility e extractedFields applicantData validationChecks)"
proof (intro conjI impI)
  show "passRate [] = NaN" by (simp add: passRate_def js_divide_def)
  show "passRateRule vt [] = None" by (rule passRateRule_Nil)
  show "take 35 (reason (assessEligibility e extractedFields applicantData [])) \<noteq>
       ''Insufficient validation pass rate (''"
  proof
    assume h: "take 35 (reason (assessEligibility e extractedFields applicantData [])) =
       ''Insufficient validation pass rate (''"
    have "take 1 (reason (assessEligibility e extractedFields applicantData [])) =
          take 1 (take 35 (reason (assessEligibility e extractedFields applicantData [])))"
      by (simp only: take_take) simp
    also have "\<dots> = ''I''"
      unfolding h by simp
    finally show False
      using assess_Nil_checks_reason [of e extractedFields applicantData] by blast
  qed
  show "assessEligibility e extractedFields applicantData [] =
        assessEligibility e extractedFields applicantData validationChecks"
    if "list_all passed validationChecks"
    using that by (rule assess_all_passed [symmetric])
qed

theorem empty_checks_pass_rate_witness:
  "assessEligibility example_env
      [(''nationality'', Some \<lparr>fvalue = ''USA'', confidence = 92\<rparr>)] no_claim [] =
   assessEligibility example_env
      [(''nationality'', Some \<lparr>fvalue = ''USA'', confidence = 92\<rparr>)] no_claim
      [\<lparr>field = ''confidence'', passed = True,
        message = ''All extracted fields have acceptable confidence scores''\<rparr>]
   \<and> eligible (assessEligibility example_env
      [(''nationality'', Some \<lparr>fvalue = ''USA'', confidence = 92\<rparr>)] no_claim [])"
proof -
  have "assessEligibility example_env
      [(''nationality'', Some \<lparr>fvalue = ''USA'', confidence = 92\<rparr>)] no_claim [] =
   assessEligibility example_env
      [(''nationality'', Some \<lparr>fvalue = ''USA'', confidence = 92\<rparr>)] no_claim
      [\<lparr>field = ''confidence'', passed = True,
        message = ''All extracted fields have acceptable confidence scores''\<rparr>]"
    using empty_checks_pass_rate [of _ example_env
      "[(''nationality'', Some \<lparr>fvalue = ''USA'', confidence = 92\<rparr>)]" no_claim
      "[\<lparr>field = ''confidence'', passed = True,
        message = ''All extracted fields have acceptable confidence scores''\<rparr>]"]
    by simp
  moreover have "eligible (assessEligibility example_env
      [(''nationality'', Some \<lparr>fvalue = ''USA'', confidence = 92\<rparr>)] no_claim [])"
    by code_simp
  ultimately show ?thesis by simp
qed

text \<open>
  Claim C6 as stated fails in its first part: the code does divide by zero. On the empty
  mapping, with an empty claim and no check, no earlier rule returns, and the pass-rate
  rule takes the quotient of the number of passed checks, 0, by the number of checks, 0.
\<close>

theorem pass_rate_divides_by_zero_counterexample:
  "\<not> (pol_requiresValidPassport (selectPolicy (requestedVisaType no_claim))
        \<and> length (criticalFailures []) > 0)
   \<and> ageRule example_env (selectPolicy (requestedVisaType no_claim))
        (requestedVisaType no_claim) [] = None
   \<and> validityRule example_env (selectPolicy (requestedVisaType no_claim))
        (requestedVisaType no_claim) [] = None
   \<and> allowedRule (selectPolicy (requestedVisaType no_claim)) (requestedVisaType no_claim) [] = None
   \<and> deniedRule (selectPolicy (requestedVisaType no_claim)) (requestedVisaType no_claim) [] = None
   \<and> confidenceRule (requestedVisaType no_claim) [] = None
   \<and> length (filter passed ([] :: ValidationCheck list)) = 0
   \<and> length ([] :: ValidationCheck list) = 0
   \<and> passRate [] = js_divide 0 0
   \<and> js_divide 0 0 = NaN"
  by code_simp

section \<open>Properties of the aggregator\<close>

text \<open>
  Claim C10. \<open>generateRecommendations\<close> returns the empty list exactly when the
  applicant is eligible, at least one and at most three checks failed, and no failed
  check's field name contains \<open>expiry\<close>, \<open>Expiry\<close>, \<open>MRZ\<close>, \<open>checksum\<close>,
  \<open>name\<close> or \<open>Name\<close>. So the list can be empty although a check failed, as for a
  document whose only failed check is \<open>documentType\<close>.
\<close>

theorem recommendations_empty_iff:
  "generateRecommendations checks eligibility = [] \<longleftrightarrow>
     eligible eligibility
     \<and> (\<exists>c\<in>set checks. \<not> passed c)
     \<and> length (filter (\<lambda>c. \<not> passed c) checks) \<le> 3
     \<and> (\<forall>c\<in>set checks. \<not> passed c \<longrightarrow>
           \<not> js_includes (field c) ''expiry'' \<and> \<not> js_includes (field c) ''Expiry''
         \<and> \<not> js_includes (field c) ''MRZ'' \<and> \<not> js_includes (field c) ''checksum''
         \<and> \<not> js_includes (field c) ''name'' \<and> \<not> js_includes (field c) ''Name'')"
  unfolding generateRecommendations_def Let_def
  by (auto simp: list_ex_iff filter_empty_conv)

theorem recommendations_empty_iff_witness:
  "map field (filter (\<lambda>c. \<not> passed c) (validateDocument example_env example_fields example_claim))
     = [''documentType'']
   \<and> eligible (assessEligibility example_env example_fields example_claim
         (validateDocument example_env example_fields example_claim))
   \<and> generateRecommendations (validateDocument example_env example_fields example_claim)
        (assessEligibility example_env example_fields example_claim
          (validateDocument example_env example_fields example_claim)) = []"
proof -
  let ?cs = "validateDocument example_env example_fields example_claim"
  let ?el = "assessEligibility example_env example_fields example_claim ?cs"
  have f: "map field (filter (\<lambda>c. \<not> passed c) ?cs) = [''documentType'']"
    by code_simp
  have e: "eligible ?el"
    by code_simp
  have rhs: "(\<exists>c\<in>set ?cs. \<not> passed c)
     \<and> length (filter (\<lambda>c. \<not> passed c) ?cs) \<le> 3
     \<and> (\<forall>c\<in>set ?cs. \<not> passed c \<longrightarrow>
           \<not> js_includes (field c) ''expiry'' \<and> \<not> js_includes (field c) ''Expiry''
         \<and> \<not> js_includes (field c) ''MRZ'' \<and> \<not> js_includes (field c) ''checksum''
         \<and> \<not> js_includes (field c) ''name'' \<and> \<not> js_includes (field c) ''Name'')"
    by code_simp
  have "generateRecommendations ?cs ?el = []"
    using recommendations_empty_iff [of ?cs ?el] e rhs by blast
  with f e show ?thesis by blast
qed

lemma fieldConfidences_positive: "fieldConfidences fs = positiveConfidences fs"
  by (induction fs)
     (auto simp: fieldConfidences_def positiveConfidences_def List.map_filter_simps
        split: option.splits)

lemma avgFieldConfidence_eq:
  "avgFieldConfidence fs =
     (if positiveConfidences fs = [] then 50
      else dbl_div (foldl (\<lambda>a b. dbl_add a (real_of_int b)) 0 (positiveConfidences fs))
             (real (length (positiveConfidences fs))))"
  by (simp add: avgFieldConfidence_def fieldConfidences_positive)

lemma validationScore_eq:
  "validationScore checks =
     (if checks = [] then 70
      else dbl_mul (dbl_div (real (length (filter passed checks))) (real (length checks))) 100)"
  by (simp add: validationScore_def)

lemma positiveConfidences_snoc_zero:
  "positiveConfidences (fs @ [(k, Some \<lparr>fvalue = v, confidence = 0\<rparr>)]) = positiveConfidences fs"
  "positiveConfidences (fs @ [(k, None)]) = positiveConfidences fs"
  by (simp_all add: positiveConfidences_def List.map_filter_def)

lemma positiveConfidences_sum_exact:
  assumes "sum_list (positiveConfidences fs) < 2 ^ 53"
  shows "foldl (\<lambda>a b. dbl_add a (real_of_int b)) 0 (positiveConfidences fs) =
           real_of_int (sum_list (positiveConfidences fs))"
proof -
  have "\<forall>c\<in>set (positiveConfidences fs). 0 \<le> c"
    by (auto simp: positiveConfidences_def)
  then have "foldl (\<lambda>a b. dbl_add a (real_of_int b)) (real_of_int 0) (positiveConfidences fs) =
               real_of_int (0 + sum_list (positiveConfidences fs))"
    using assms by (intro dbl_sum_exact) simp_all
  then show ?thesis by simp
qed

text \<open>
  Claim C3, as amended. \<open>calculateOverallConfidence\<close> is
  \<open>round(avg * 0.6 + score * 0.4)\<close> clamped to 0..100, every operation being the one
  on doubles (its exact result rounded to the nearest double) and \<open>round\<close> being
  \<open>Math.round\<close>. Here \<open>avg\<close> is the sum of the confidences that are above 0 divided by
  their number (50 when there is none), and \<open>score\<close> is the pass rate times 100 (70 when
  there is no check). The sum is exact as long as it is below \<open>2^53\<close>. A present field
  of confidence 0, like a key mapped to \<open>undefined\<close>, is left out of the average: adding
  one changes nothing.
\<close>

theorem overall_confidence_formula:
  "calculateOverallConfidence fs checks =
     min 100 (max 0 (js_round
       (dbl_add
          (dbl_mul
             (if positiveConfidences fs = [] then 50
              else dbl_div (foldl (\<lambda>a b. dbl_add a (real_of_int b)) 0 (positiveConfidences fs))
                     (real (length (positiveConfidences fs))))
             (binary64 (6 / 10)))
          (dbl_mul
             (if checks = [] then 70
              else dbl_mul (dbl_div (real (length (filter passed checks))) (real (length checks))) 100)
             (binary64 (4 / 10))))))
   \<and> (sum_list (positiveConfidences fs) < 2 ^ 53 \<longrightarrow>
        foldl (\<lambda>a b. dbl_add a (real_of_int b)) 0 (positiveConfidences fs) =
          real_of_int (sum_list (positiveConfidences fs)))
   \<and> 0 \<le> calculateOverallConfidence fs checks \<and> calculateOverallConfidence fs checks \<le> 100
   \<and> calculateOverallConfidence (fs @ [(k, Some \<lparr>fvalue = v, confidence = 0\<rparr>)]) checks =
       calculateOverallConfidence fs checks
   \<and> calculateOverallConfidence (fs @ [(k, None)]) checks = calculateOverallConfidence fs checks"
proof (intro conjI impI)
  show "calculateOverallConfidence fs checks =
     min 100 (max 0 (js_round
       (dbl_add
          (dbl_mul
             (if positiveConfidences fs = [] then 50
              else dbl_div (foldl (\<lambda>a b. dbl_add a (real_of_int b)) 0 (positiveConfidences fs))
                     (real (length (positiveConfidences fs))))
             (binary64 (6 / 10)))
          (dbl_mul
             (if checks = [] then 70
              else dbl_mul (dbl_div (real (length (filter passed checks))) (real (length checks))) 100)
             (binary64 (4 / 10))))))"
    unfolding calculateOverallConfidence_def Let_def avgFieldConfidence_eq validationScore_eq
    by (rule refl)
  show "foldl (\<lambda>a b. dbl_add a (real_of_int b)) 0 (positiveConfidences fs) =
          real_of_int (sum_list (positiveConfidences fs))"
    if "sum_list (positiveConfidences fs) < 2 ^ 53"
    using that by (rule positiveConfidences_sum_exact)
  show "0 \<le> calculateOverallConfidence fs checks"
    by (simp add: calculateOverallConfidence_def Let_def)
  show "calculateOverallConfidence fs checks \<le> 100"
    by (simp add: calculateOverallConfidence_def Let_def)
  show "calculateOverallConfidence (fs @ [(k, Some \<lparr>fvalue = v, confidence = 0\<rparr>)]) checks =
       calculateOverallConfidence fs checks"
    unfolding calculateOverallConfidence_def avgFieldConfidence_eq positiveConfidences_snoc_zero
    by (rule refl)
  show "calculateOverallConfidence (fs @ [(k, None)]) checks = calculateOverallConfidence fs checks"
    unfolding calculateOverallConfidence_def avgFieldConfidence_eq positiveConfidences_snoc_zero
    by (rule refl)
qed

theorem overall_confidence_formula_witness:
  "map passed (validateDocument example_env rounding_fields rounding_claim) =
     [True, False, False, True, False, True]
   \<and> sum_list (positiveConfidences rounding_fields) = 395
   \<and> foldl (\<lambda>a b. dbl_add a (real_of_int b)) 0 (positiveConfidences rounding_fields) = 395
   \<and> calculateOverallConfidence rounding_fields
       (validateDocument example_env rounding_fields rounding_claim) = 59"
proof -
  let ?cs = "validateDocument example_env rounding_fields rounding_claim"
  have a: "map passed ?cs = [True, False, False, True, False, True]"
    by code_simp
  have b: "sum_list (positiveConfidences rounding_fields) = 395"
    by code_simp
  have c: "calculateOverallConfidence rounding_fields ?cs = 59"
    by code_simp
  have "sum_list (positiveConfidences rounding_fields) < 2 ^ 53"
    by (simp add: b)
  then have "foldl (\<lambda>a b. dbl_add a (real_of_int b)) 0 (positiveConfidences rounding_fields) =
          real_of_int (sum_list (positiveConfidences rounding_fields))"
    using overall_confidence_formula [of rounding_fields ?cs] by blast
  then have "foldl (\<lambda>a b. dbl_add a (real_of_int b)) 0 (positiveConfidences rounding_fields) = 395"
    by (simp add: b)
  with a b c show ?thesis by blast
qed

text \<open>
  Claim C3 as stated fails: with one field of confidence 100, one present field of
  confidence 0 and no check, the code returns 88, and the average that counts the second
  field at zero gives 58.
\<close>

theorem overall_confidence_counts_zero_counterexample:
  "calculateOverallConfidence zero_confidence_fields [] = 88
   \<and> spec_overallConfidence zero_confidence_fields [] = 58"
  by code_simp

text \<open>
  The arithmetic on doubles shows in the result: on the six fields above the exact value
  of the weighted sum is 59.5, which rounds to 60, and the code, whose sum of the two
  products is the double just below 59.5, returns 59.
\<close>

lemma overall_confidence_below_half:
  "spec_overallConfidence rounding_fields
     (validateDocument example_env rounding_fields rounding_claim) = 60
   \<and> dbl_add (dbl_mul (dbl_div 395 6) (binary64 (6 / 10)))
       (dbl_mul (dbl_mul (dbl_div 3 6) 100) (binary64 (4 / 10))) < 119 / 2
   \<and> calculateOverallConfidence rounding_fields
       (validateDocument example_env rounding_fields rounding_claim) = 59"
  by code_simp

section \<open>The date rules of the validator\<close>

lemma expiryCheck_absent:
  "fieldValue ef ''expiryDate'' = None \<Longrightarrow> expiryCheck e ef = []"
  by (simp add: expiryCheck_def)

lemma expiryCheck_valid_date:
  assumes "fieldValue ef ''expiryDate'' = Some v" and "parseISO e v = Inr (Date t)"
  shows "expiryCheck e ef =
           \<lparr>field = ''expiryDate'', passed = (\<not> t < now e),
            message = (if t < now e then ''Document expired on '' @ v
                       else ''Document valid until '' @ v)\<rparr>
           # (if \<not> t < now e \<and> t < sixMonthsFromNow e
              then [\<lparr>field = ''expiryDate'', passed = True,
                      message = ''Warning: Document expires within 6 months''\<rparr>]
              else [])"
  using assms by (simp add: expiryCheck_def Let_def)

lemma expiryCheck_parser_throws:
  assumes "fieldValue ef ''expiryDate'' = Some v" and "parseISO e v = Inl err"
  shows "expiryCheck e ef =
           [\<lparr>field = ''expiryDate'', passed = False, message = ''Invalid expiry date format''\<rparr>]"
  using assms by (simp add: expiryCheck_def)

text \<open>
  Claim C2 at the failing input. When the expiry string is present and the parser answers
  \<open>Invalid Date\<close> (what date-fns does for a string that is no ISO 8601 date), the
  rule emits exactly one check and it has passed: \<open>isBefore\<close> of an invalid date is
  false, so the document is taken as not expired, and the \<open>catch\<close> with the
  invalid-format message is not reached. The two lemmas above cover the rest of the
  claim: a valid date, and a parser that throws.
\<close>

theorem expiryCheck_invalid_date:
  assumes "fieldValue ef ''expiryDate'' = Some v" and "parseISO e v = Inr InvalidDate"
  shows "expiryCheck e ef =
           [\<lparr>field = ''expiryDate'', passed = True, message = ''Document valid until '' @ v\<rparr>]"
  using assms by (simp add: expiryCheck_def Let_def)

theorem expiryCheck_invalid_date_witness:
  "expiryCheck example_env unparseable_expiry =
     [\<lparr>field = ''expiryDate'', passed = True, message = ''Document valid until not-a-date''\<rparr>]
   \<and> validateDocument example_env unparseable_expiry no_claim =
     [\<lparr>field = ''expiryDate'', passed = True, message = ''Document valid until not-a-date''\<rparr>,
      \<lparr>field = ''confidence'', passed = True,
       message = ''All extracted fields have acceptable confidence scores''\<rparr>]"
proof -
  have f: "fieldValue unparseable_expiry ''expiryDate'' = Some ''not-a-date''"
    by code_simp
  have p: "parseISO example_env ''not-a-date'' = Inr InvalidDate"
    by code_simp
  have v: "validateDocument example_env unparseable_expiry no_claim =
     [\<lparr>field = ''expiryDate'', passed = True, message = ''Document valid until not-a-date''\<rparr>,
      \<lparr>field = ''confidence'', passed = True,
       message = ''All extracted fields have acceptable confidence scores''\<rparr>]"
    by code_simp
  show ?thesis
    using expiryCheck_invalid_date [OF f p] v by simp
qed

lemma dateOfBirthCheck_absent:
  "truthy (dateOfBirth ad) = None \<or> fieldValue ef ''dateOfBirth'' = None \<Longrightarrow>
   dateOfBirthCheck e ef ad = []"
  by (auto simp: dateOfBirthCheck_def split: option.splits)

lemma dateOfBirthCheck_valid_date:
  assumes "truthy (dateOfBirth ad) = Some claimed" and "fieldValue ef ''dateOfBirth'' = Some v"
    and "parseISO e v = Inr (Date t)"
  shows "dateOfBirthCheck e ef ad =
           [\<lparr>field = ''dateOfBirth'', passed = (claimed = v),
             message = (if claimed = v then ''Date of birth matches application''
                        else ''DOB mismatch: Document shows '' @ dq @ v @ dq @
                             '', application shows '' @ dq @ claimed @ dq)\<rparr>,
            \<lparr>field = ''age'',
             passed = (18 \<le> differenceInYears e (now e) t \<and> differenceInYears e (now e) t < 120),
             message = (if 18 \<le> differenceInYears e (now e) t \<and> differenceInYears e (now e) t < 120
                        then ''Applicant age: '' @ toString_int (differenceInYears e (now e) t) @ '' years''
                        else if differenceInYears e (now e) t < 18
                        then ''Applicant is under 18 - may require guardian''
                        else ''Invalid age calculated'')\<rparr>]"
  using assms by (simp add: dateOfBirthCheck_def Let_def)

lemma dateOfBirthCheck_parser_throws:
  assumes "truthy (dateOfBirth ad) = Some claimed" and "fieldValue ef ''dateOfBirth'' = Some v"
    and "parseISO e v = Inl err"
  shows "dateOfBirthCheck e ef ad =
           [\<lparr>field = ''dateOfBirth'', passed = (claimed = v),
             message = (if claimed = v then ''Date of birth matches application''
                        else ''DOB mismatch: Document shows '' @ dq @ v @ dq @
                             '', application shows '' @ dq @ claimed @ dq)\<rparr>,
            \<lparr>field = ''dateOfBirth'', passed = False, message = ''Invalid date of birth format''\<rparr>]"
  using assms by (simp add: dateOfBirthCheck_def Let_def)

text \<open>
  Claim C5 at the failing input. When both dates of birth are present and the parser
  answers \<open>Invalid Date\<close> for the extracted one, the rule emits the equality check and
  then a failed \<open>age\<close> check with the message for an invalid age: the age is \<open>NaN\<close>,
  and the \<open>catch\<close> with the failed \<open>dateOfBirth\<close> format check is not reached. The
  two lemmas above cover the rest of the claim: a valid date, and a parser that throws.
\<close>

theorem dateOfBirthCheck_invalid_date:
  assumes "truthy (dateOfBirth ad) = Some claimed" and "fieldValue ef ''dateOfBirth'' = Some v"
    and "parseISO e v = Inr InvalidDate"
  shows "dateOfBirthCheck e ef ad =
           [\<lparr>field = ''dateOfBirth'', passed = (claimed = v),
             message = (if claimed = v then ''Date of birth matches application''
                        else ''DOB mismatch: Document shows '' @ dq @ v @ dq @
                             '', application shows '' @ dq @ claimed @ dq)\<rparr>,
            \<lparr>field = ''age'', passed = False, message = ''Invalid age calculated''\<rparr>]"
  using assms by (simp add: dateOfBirthCheck_def Let_def)

theorem dateOfBirthCheck_invalid_date_witness:
  "map (\<lambda>c. (field c, passed c)) (dateOfBirthCheck example_env unparseable_dob dob_claim) =
     [(''dateOfBirth'', False), (''age'', False)]
   \<and> map message (dateOfBirthCheck example_env unparseable_dob dob_claim) =
     [''DOB mismatch: Document shows '' @ dq @ ''not-a-date'' @ dq @
        '', application shows '' @ dq @ ''1990-01-15'' @ dq,
      ''Invalid age calculated'']
   \<and> map (\<lambda>c. (field c, passed c)) (validateDocument example_env unparseable_dob dob_claim) =
     [(''dateOfBirth'', False), (''age'', False), (''confidence'', True)]"
proof -
  have t: "truthy (dateOfBirth dob_claim) = Some ''1990-01-15''"
    by code_simp
  have f: "fieldValue unparseable_dob ''dateOfBirth'' = Some ''not-a-date''"
    by code_simp
  have p: "parseISO example_env ''not-a-date'' = Inr InvalidDate"
    by code_simp
  have v: "map (\<lambda>c. (field c, passed c)) (validateDocument example_env unparseable_dob dob_claim) =
     [(''dateOfBirth'', False), (''age'', False), (''confidence'', True)]"
    by code_simp
  show ?thesis
    using dateOfBirthCheck_invalid_date [OF t f p] v by simp
qed

section \<open>The end-to-end scenario of the specification\<close>

text \<open>
  In the example environment the scenario passes all eight checks (the applicant is 36
  and the passport outlasts the six months the tourist policy asks for), is accepted,
  and scores round(0.6 * 92 + 0.4 * 100) = 95.
\<close>

lemma end_to_end_john_doe:
  "map (\<lambda>c. (field c, passed c)) (validateDocument example_env john_doe_fields john_doe_claim) =
     [(''expiryDate'', True), (''name'', True), (''dateOfBirth'', True), (''age'', True),
      (''documentNumber'', True), (''nationality'', True), (''documentType'', True),
      (''confidence'', True)]
   \<and> eligible (assessEligibility example_env john_doe_fields john_doe_claim
        (validateDocument example_env john_doe_fields john_doe_claim))
   \<and> calculateOverallConfidence john_doe_fields
        (validateDocument example_env john_doe_fields john_doe_claim) = 95
   \<and> generateRecommendations (validateDocument example_env john_doe_fields john_doe_claim)
        (assessEligibility example_env john_doe_fields john_doe_claim
          (validateDocument example_env john_doe_fields john_doe_claim)) =
       [''Document appears valid and applicant is eligible'',
        ''Proceed with visa application processing'']"
  by code_simp

end
